theory Spec2Isabelle
  imports Complex_Main "HOL-Library.Signed_Division" "HOL-Library.List_Lexorder"
begin

section \<open>MoleMath: formula parser and equation balancer\<close>

text \<open>
  A shallow embedding of the chemistry core of the repository: the exact fraction type
  \<open>RobustFraction\<close>, the numeric helpers \<open>gcd\<close> and \<open>lcm\<close>, the formula parser, the
  equation parser and validator, and the two balancers.

  Conventions of the embedding.
  \<^item> A JavaScript \<open>number\<close> that holds an integer is an \<^typ>\<open>int\<close>. The source computes
    with IEEE doubles, which are exact on integers below \<open>2^53\<close>; the embedding is the
    source on that range. A quotient \<open>a / b\<close> of the source whose divisor divides the
    dividend is \<open>a div b\<close>. Beyond that range a product is rounded, or is \<open>Infinity\<close>, and
    a remainder can be \<open>NaN\<close>: the fraction class and the numeric helpers are embedded a
    second time on doubles, and what they do there is stated of that embedding.
  \<^item> A JavaScript string is the list of its UTF-16 code units, \<open>jstring\<close>; \<open>str\<close> turns
    an ASCII literal into one.
  \<^item> A thrown \<open>Error\<close> is a value \<open>Inl e\<close> of a sum type; a \<open>try/catch\<close> is a case
    distinction on the sum. The texts of errors are constructors of datatypes.
  \<^item> The element lookup \<open>isValidElement\<close> reads the periodic table, which is data outside
    the sources; every function that needs it takes it as its first argument.
  \<^item> The display fields of a balance result (the step trace, the rendered equation) and
    the warnings of a validation are left out; no decision of the code reads them.
\<close>

subsection \<open>Thrown errors\<close>

type_synonym jstring = "nat list"

datatype exn =
    FractionZeroDenominator
  | DivisionByZero
  | CannotParse jstring
  | TypeError
  | RangeError

definition bindE :: "exn + 'a \<Rightarrow> ('a \<Rightarrow> exn + 'b) \<Rightarrow> exn + 'b" where
  "bindE m f = (case m of Inl e \<Rightarrow> Inl e | Inr x \<Rightarrow> f x)"

fun mapE :: "('a \<Rightarrow> exn + 'b) \<Rightarrow> 'a list \<Rightarrow> exn + 'b list" where
  "mapE f [] = Inr []"
| "mapE f (x # xs) = bindE (f x) (\<lambda>y. bindE (mapE f xs) (\<lambda>ys. Inr (y # ys)))"

subsection \<open>RobustFraction\<close>

record RobustFraction =
  num :: int
  den :: int

text \<open>The private method \<open>gcd(a, b)\<close> of the class: \<open>b === 0 ? a : this.gcd(b, a % b)\<close>.
  The remainder \<open>%\<close> of JavaScript takes the sign of the dividend: \<open>smod\<close>.\<close>

function fraction_gcd :: "int \<Rightarrow> int \<Rightarrow> int" where
  "fraction_gcd a b = (if b = 0 then a else fraction_gcd b (a smod b))"
  by pat_completeness auto
termination
proof (relation "measure (\<lambda>(a, b). nat \<bar>b\<bar>)")
  show "wf (measure (\<lambda>(a, b). nat \<bar>b\<bar>))" by simp
next
  fix a b :: int
  assume "b \<noteq> 0"
  then have "\<bar>a smod b\<bar> < \<bar>b\<bar>"
    by (simp add: signed_modulo_int_def abs_mult abs_sgn_eq)
  then show "((b, a smod b), (a, b)) \<in> measure (\<lambda>(a, b). nat \<bar>b\<bar>)"
    by simp
qed

declare fraction_gcd.simps [simp del]

text \<open>The constructor \<open>new RobustFraction(numerator, denominator = 1)\<close>.\<close>

definition newRobustFraction :: "int \<Rightarrow> int \<Rightarrow> exn + RobustFraction" where
  "newRobustFraction numerator denominator =
     (if denominator = 0 then Inl FractionZeroDenominator
      else
        let numerator' = (if denominator < 0 then - numerator else numerator);
            denominator' = (if denominator < 0 then - denominator else denominator);
            g = fraction_gcd \<bar>numerator'\<bar> \<bar>denominator'\<bar>
        in Inr \<lparr>num = numerator' div g, den = denominator' div g\<rparr>)"

definition add :: "RobustFraction \<Rightarrow> RobustFraction \<Rightarrow> exn + RobustFraction" where
  "add this other =
     newRobustFraction (num this * den other + num other * den this) (den this * den other)"

definition subtract :: "RobustFraction \<Rightarrow> RobustFraction \<Rightarrow> exn + RobustFraction" where
  "subtract this other =
     newRobustFraction (num this * den other - num other * den this) (den this * den other)"

definition multiply :: "RobustFraction \<Rightarrow> RobustFraction \<Rightarrow> exn + RobustFraction" where
  "multiply this other = newRobustFraction (num this * num other) (den this * den other)"

definition divide_fraction :: "RobustFraction \<Rightarrow> RobustFraction \<Rightarrow> exn + RobustFraction" where
  "divide_fraction this other =
     (if num other = 0 then Inl DivisionByZero
      else newRobustFraction (num this * den other) (den this * num other))"

definition isZero :: "RobustFraction \<Rightarrow> bool" where
  "isZero this = (num this = 0)"

definition isOne :: "RobustFraction \<Rightarrow> bool" where
  "isOne this = (num this = den this)"

text \<open>\<open>toDecimal\<close> is \<open>num / den\<close> in floating point; it is read only by the pivot
  search, to compare magnitudes. The embedding takes the exact quotient.\<close>

definition toDecimal :: "RobustFraction \<Rightarrow> rat" where
  "toDecimal this = of_int (num this) / of_int (den this)"

definition abs_fraction :: "RobustFraction \<Rightarrow> exn + RobustFraction" where
  "abs_fraction this = newRobustFraction \<bar>num this\<bar> (den this)"

definition negate :: "RobustFraction \<Rightarrow> exn + RobustFraction" where
  "negate this = newRobustFraction (- num this) (den this)"

subsection \<open>Strings\<close>

definition str :: "string \<Rightarrow> jstring" where
  "str s = map of_char s"

definition isUpper :: "nat \<Rightarrow> bool" where
  "isUpper c \<longleftrightarrow> 65 \<le> c \<and> c \<le> 90"

definition isLower :: "nat \<Rightarrow> bool" where
  "isLower c \<longleftrightarrow> 97 \<le> c \<and> c \<le> 122"

definition isDigit :: "nat \<Rightarrow> bool" where
  "isDigit c \<longleftrightarrow> 48 \<le> c \<and> c \<le> 57"

text \<open>The class \<open>\s\<close> of a regular expression, which is also what \<open>trim\<close> removes:
  white space and line terminators.\<close>

definition isSpace :: "nat \<Rightarrow> bool" where
  "isSpace c \<longleftrightarrow>
     c = 9 \<or> c = 10 \<or> c = 11 \<or> c = 12 \<or> c = 13 \<or> c = 32 \<or> c = 160 \<or> c = 5760
     \<or> (8192 \<le> c \<and> c \<le> 8202) \<or> c = 8232 \<or> c = 8233 \<or> c = 8239 \<or> c = 8287
     \<or> c = 12288 \<or> c = 65279"

definition trim :: "jstring \<Rightarrow> jstring" where
  "trim s = rev (dropWhile isSpace (rev (dropWhile isSpace s)))"

text \<open>\<open>parseInt(value, 10)\<close> on a run of decimal digits.\<close>

definition parseInt :: "jstring \<Rightarrow> int" where
  "parseInt ds = foldl (\<lambda>a c. 10 * a + (int c - 48)) 0 ds"

subsection \<open>Formula parser: tokens\<close>

text \<open>A token is its \<open>type\<close> and its \<open>value\<close>. The field \<open>position\<close> of the source is
  written by the tokenizer and read nowhere; it is left out.\<close>

datatype Token =
    Element jstring
  | Number jstring
  | OpenParen
  | CloseParen

text \<open>The scanning loop of \<open>tokenize\<close>. \<open>None\<close> is the early \<open>return []\<close> on a character
  that starts no token.\<close>

function scan :: "jstring \<Rightarrow> Token list option" where
  "scan [] = Some []"
| "scan (c # cs) =
     (if isUpper c then
        (case cs of
           d # ds \<Rightarrow>
             if isLower d then map_option ((#) (Element [c, d])) (scan ds)
             else map_option ((#) (Element [c])) (scan cs)
         | [] \<Rightarrow> map_option ((#) (Element [c])) (scan cs))
      else if isDigit c then
        map_option ((#) (Number (c # takeWhile isDigit cs))) (scan (dropWhile isDigit cs))
      else if c = 40 then map_option ((#) OpenParen) (scan cs)
      else if c = 41 then map_option ((#) CloseParen) (scan cs)
      else if isSpace c then scan cs
      else None)"
  by pat_completeness auto
termination
  by (relation "measure length") (auto simp: length_dropWhile_le le_imp_less_Suc)

definition tokenize :: "jstring \<Rightarrow> Token list" where
  "tokenize formula = (case scan formula of None \<Rightarrow> [] | Some tokens \<Rightarrow> tokens)"

subsection \<open>Formula parser: recursive descent\<close>

datatype parse_error =
    INVALID_FORMULA
  | EMPTY_FORMULA
  | FORMULA_TOO_LONG
  | INVALID_SYNTAX
  | INVALID_ELEMENT jstring
  | VALUE_TOO_LARGE

definition MAX_ATOMS_PER_MOLECULE :: int where
  "MAX_ATOMS_PER_MOLECULE = 1000"

definition MAX_FORMULA_LENGTH :: nat where
  "MAX_FORMULA_LENGTH = 50"

definition MAX_COEFFICIENT :: int where
  "MAX_COEFFICIENT = 100"

text \<open>A \<open>Record<string, number>\<close> keeps its keys in insertion order (no key of the parser
  is an array index): an association list. \<open>elements[k] = (elements[k] || 0) + n\<close>.\<close>

type_synonym counts = "(jstring \<times> int) list"

fun setKey :: "jstring \<Rightarrow> int \<Rightarrow> counts \<Rightarrow> counts" where
  "setKey k v [] = [(k, v)]"
| "setKey k v ((k', v') # ps) = (if k' = k then (k, v) # ps else (k', v') # setKey k v ps)"

definition addCount :: "counts \<Rightarrow> jstring \<Rightarrow> int \<Rightarrow> counts" where
  "addCount elements k n =
     setKey k ((case map_of elements k of None \<Rightarrow> 0 | Some old \<Rightarrow> old) + n) elements"

text \<open>\<open>parseElement\<close>, entered with the cursor on an element token: \<open>symbol\<close> is its value,
  \<open>ts\<close> the tokens after it. It returns the updated counts and the tokens left.\<close>

definition parseElement ::
  "(jstring \<Rightarrow> bool) \<Rightarrow> counts \<Rightarrow> jstring \<Rightarrow> Token list \<Rightarrow> parse_error + counts \<times> Token list" where
  "parseElement isValidElement elements symbol ts =
     (if \<not> isValidElement symbol then Inl (INVALID_ELEMENT symbol)
      else case ts of
        Number digits # ts' \<Rightarrow>
          (let count = parseInt digits
           in if count \<le> 0 \<or> count > MAX_ATOMS_PER_MOLECULE then Inl VALUE_TOO_LARGE
              else Inr (addCount elements symbol count, ts'))
      | _ \<Rightarrow> Inr (addCount elements symbol 1, ts))"

text \<open>The part of \<open>parseParentheses\<close> after the nested \<open>parseGroup\<close> has returned
  \<open>groupElements\<close>: the closing parenthesis, the multiplier, the merge.\<close>

definition closeParentheses ::
  "counts \<Rightarrow> counts \<Rightarrow> Token list \<Rightarrow> parse_error + counts \<times> Token list" where
  "closeParentheses elements groupElements ts =
     (case ts of
        CloseParen # ts' \<Rightarrow>
          (case ts' of
             Number digits # ts'' \<Rightarrow>
               (let multiplier = parseInt digits
                in if multiplier \<le> 0 \<or> multiplier > MAX_ATOMS_PER_MOLECULE then Inl VALUE_TOO_LARGE
                   else Inr (foldl (\<lambda>els (element, count). addCount els element (count * multiplier))
                               elements groupElements, ts''))
           | _ \<Rightarrow>
               Inr (foldl (\<lambda>els (element, count). addCount els element (count * 1))
                      elements groupElements, ts'))
      | _ \<Rightarrow> Inl INVALID_SYNTAX)"

text \<open>The loop of \<open>parseGroup\<close> with the counts collected so far; the cursor is the list of
  tokens left. The call of \<open>parseParentheses\<close> is the nested \<open>parseGroup\<close> on the tokens
  after the opening parenthesis, followed by \<open>closeParentheses\<close>.\<close>

function parseGroup_loop ::
  "(jstring \<Rightarrow> bool) \<Rightarrow> counts \<Rightarrow> Token list \<Rightarrow> parse_error + counts \<times> Token list" where
  "parseGroup_loop isValidElement elements [] = Inr (elements, [])"
| "parseGroup_loop isValidElement elements (Element symbol # ts) =
     (case parseElement isValidElement elements symbol ts of
        Inl e \<Rightarrow> Inl e
      | Inr (elements', ts') \<Rightarrow> parseGroup_loop isValidElement elements' ts')"
| "parseGroup_loop isValidElement elements (OpenParen # ts) =
     (case parseGroup_loop isValidElement [] ts of
        Inl e \<Rightarrow> Inl e
      | Inr (groupElements, ts') \<Rightarrow>
          (case closeParentheses elements groupElements ts' of
             Inl e \<Rightarrow> Inl e
           | Inr (elements', ts'') \<Rightarrow> parseGroup_loop isValidElement elements' ts''))"
| "parseGroup_loop isValidElement elements (CloseParen # ts) = Inr (elements, CloseParen # ts)"
| "parseGroup_loop isValidElement elements (Number digits # ts) = Inl INVALID_SYNTAX"
  by pat_completeness auto

lemma parseElement_length:
  "parseElement v els symbol ts = Inr (els', ts') \<Longrightarrow> length ts' \<le> length ts"
  by (auto simp: parseElement_def Let_def split: if_splits list.splits Token.splits)

lemma closeParentheses_length:
  "closeParentheses els g ts = Inr (els', ts') \<Longrightarrow> length ts' < length ts"
  by (auto simp: closeParentheses_def Let_def split: if_splits list.splits Token.splits)

lemma parseGroup_loop_length_dom:
  "parseGroup_loop_dom (v, els, ts) \<Longrightarrow> parseGroup_loop v els ts = Inr (els', ts')
   \<Longrightarrow> length ts' \<le> length ts"
proof (induction v els ts arbitrary: els' ts' rule: parseGroup_loop.pinduct)
  case (1 v els)
  then show ?case by (simp add: parseGroup_loop.psimps)
next
  case (2 v els symbol ts)
  from "2.prems" "2.hyps" obtain e1 t1 where
    a: "parseElement v els symbol ts = Inr (e1, t1)" and b: "parseGroup_loop v e1 t1 = Inr (els', ts')"
    by (auto simp: parseGroup_loop.psimps split: sum.splits)
  from "2.IH" [OF a refl b] parseElement_length [OF a] show ?case by simp
next
  case (3 v els ts)
  from "3.prems" "3.hyps" obtain g t1 e2 t2 where
    a: "parseGroup_loop v [] ts = Inr (g, t1)" and b: "closeParentheses els g t1 = Inr (e2, t2)"
    and c: "parseGroup_loop v e2 t2 = Inr (els', ts')"
    by (auto simp: parseGroup_loop.psimps split: sum.splits)
  from "3.IH"(1) [OF a] have "length t1 \<le> length ts" .
  moreover from closeParentheses_length [OF b] have "length t2 < length t1" .
  moreover from "3.IH"(2) [OF a refl b refl c] have "length ts' \<le> length t2" .
  ultimately show ?case by simp
next
  case (4 v els ts)
  then show ?case by (simp add: parseGroup_loop.psimps)
next
  case (5 v els digits ts)
  then show ?case by (simp add: parseGroup_loop.psimps)
qed

termination parseGroup_loop
proof (relation "measure (\<lambda>(v, els, ts). length ts)", goal_cases)
  case 1
  show ?case by simp
next
  case (2 v els symbol ts x e1 t1)
  then show ?case using parseElement_length [of v els symbol ts e1 t1] by auto
next
  case (3 v els ts)
  then show ?case by simp
next
  case (4 v els ts x g t1 y e2 t2)
  then show ?case
    using parseGroup_loop_length_dom [of v "[]" ts g t1] closeParentheses_length [of els g t1 e2 t2]
    by auto
qed

record ParseResult =
  elements :: counts
  isValid :: bool
  error :: "parse_error option"

text \<open>\<open>parseGroup\<close> starts the loop with no counts.\<close>

definition parseGroup :: "(jstring \<Rightarrow> bool) \<Rightarrow> Token list \<Rightarrow> parse_error + counts \<times> Token list" where
  "parseGroup isValidElement tokens = parseGroup_loop isValidElement [] tokens"

text \<open>\<open>parseParentheses\<close>, entered with the cursor behind the opening parenthesis. The
  group loop above makes this call in its third equation.\<close>

definition parseParentheses ::
  "(jstring \<Rightarrow> bool) \<Rightarrow> counts \<Rightarrow> Token list \<Rightarrow> parse_error + counts \<times> Token list" where
  "parseParentheses isValidElement els ts =
     (case parseGroup isValidElement ts of
        Inl e \<Rightarrow> Inl e
      | Inr (groupElements, ts') \<Rightarrow> closeParentheses els groupElements ts')"

lemma parseGroup_loop_OpenParen:
  "parseGroup_loop v els (OpenParen # ts) =
     (case parseParentheses v els ts of
        Inl e \<Rightarrow> Inl e
      | Inr (els', ts') \<Rightarrow> parseGroup_loop v els' ts')"
  by (simp add: parseParentheses_def parseGroup_def split: sum.split prod.split)

text \<open>\<open>FormulaParser.parse\<close>: the \<open>try\<close> around \<open>parseGroup\<close>, and the test for tokens
  left over.\<close>

definition parse :: "(jstring \<Rightarrow> bool) \<Rightarrow> Token list \<Rightarrow> ParseResult" where
  "parse isValidElement tokens =
     (case parseGroup isValidElement tokens of
        Inr (els, rest) \<Rightarrow>
          if rest \<noteq> [] then
            \<lparr>ParseResult.elements = [], isValid = False, error = Some INVALID_SYNTAX\<rparr>
          else \<lparr>ParseResult.elements = els, isValid = True, error = None\<rparr>
      | Inl e \<Rightarrow> \<lparr>ParseResult.elements = [], isValid = False, error = Some e\<rparr>)"

record ParsedElement =
  symbol :: jstring
  count :: int

record ParsedFormula =
  elements :: "ParsedElement list"
  formula :: jstring
  isValid :: bool
  error :: "parse_error option"

definition parseChemicalFormula :: "(jstring \<Rightarrow> bool) \<Rightarrow> jstring \<Rightarrow> ParsedFormula" where
  "parseChemicalFormula isValidElement f =
     (if f = [] \<or> length (trim f) = 0 then
        \<lparr>ParsedFormula.elements = [], formula = [], isValid = False, error = Some EMPTY_FORMULA\<rparr>
      else
        let cleanFormula = trim f in
        if length cleanFormula > MAX_FORMULA_LENGTH then
          \<lparr>ParsedFormula.elements = [], formula = cleanFormula, isValid = False,
             error = Some FORMULA_TOO_LONG\<rparr>
        else
          let tokens = tokenize cleanFormula in
          if length tokens = 0 then
            \<lparr>ParsedFormula.elements = [], formula = cleanFormula, isValid = False,
               error = Some INVALID_SYNTAX\<rparr>
          else
            let parseResult = parse isValidElement tokens in
            if \<not> ParseResult.isValid parseResult then
              \<lparr>ParsedFormula.elements = [], formula = cleanFormula, isValid = False,
                 error = ParseResult.error parseResult\<rparr>
            else
              let els = map (\<lambda>(s, c). \<lparr>symbol = s, count = c\<rparr>)
                          (ParseResult.elements parseResult);
                  totalAtoms = foldl (\<lambda>sum element. sum + count element) 0 els
              in if totalAtoms > MAX_ATOMS_PER_MOLECULE then
                   \<lparr>ParsedFormula.elements = [], formula = cleanFormula, isValid = False,
                      error = Some VALUE_TOO_LARGE\<rparr>
                 else
                   \<lparr>ParsedFormula.elements = els, formula = cleanFormula, isValid = True,
                      error = None\<rparr>)"

text \<open>\<open>normalizeFormula\<close>: all white space removed; the empty string unless what is left
  matches \<open>/^[A-Za-z0-9()]+$/\<close>.\<close>

definition normalizeFormula :: "jstring \<Rightarrow> jstring" where
  "normalizeFormula f =
     (if f = [] then []
      else
        let normalized = filter (\<lambda>c. \<not> isSpace c) (trim f) in
        if \<not> (normalized \<noteq> []
              \<and> list_all (\<lambda>c. isUpper c \<or> isLower c \<or> isDigit c \<or> c = 40 \<or> c = 41) normalized)
        then []
        else normalized)"

text \<open>\<open>getElementCount\<close>: the atom count of an element in a formula, 0 when the formula
  does not parse or lacks the element.\<close>

definition getElementCount :: "(jstring \<Rightarrow> bool) \<Rightarrow> jstring \<Rightarrow> jstring \<Rightarrow> int" where
  "getElementCount isValidElement f elementSymbol =
     (let parsed = parseChemicalFormula isValidElement f in
      if \<not> ParsedFormula.isValid parsed then 0
      else case find (\<lambda>el. symbol el = elementSymbol) (ParsedFormula.elements parsed) of
             Some element \<Rightarrow> count element
           | None \<Rightarrow> 0)"

text \<open>Modelled from the spec: the periodic table (\<open>shared/periodic-table.json\<close>, read by
  \<open>isValidElement\<close>) is not among the sources. Every function takes the validity oracle as
  its first argument; this table of the 118 element symbols instantiates it at concrete
  inputs.\<close>

definition periodicTable :: "string list" where
  "periodicTable =
     [''H'', ''He'', ''Li'', ''Be'', ''B'', ''C'', ''N'', ''O'', ''F'', ''Ne'', ''Na'', ''Mg'',
      ''Al'', ''Si'', ''P'', ''S'', ''Cl'', ''Ar'', ''K'', ''Ca'', ''Sc'', ''Ti'', ''V'', ''Cr'',
      ''Mn'', ''Fe'', ''Co'', ''Ni'', ''Cu'', ''Zn'', ''Ga'', ''Ge'', ''As'', ''Se'', ''Br'',
      ''Kr'', ''Rb'', ''Sr'', ''Y'', ''Zr'', ''Nb'', ''Mo'', ''Tc'', ''Ru'', ''Rh'', ''Pd'',
      ''Ag'', ''Cd'', ''In'', ''Sn'', ''Sb'', ''Te'', ''I'', ''Xe'', ''Cs'', ''Ba'', ''La'',
      ''Ce'', ''Pr'', ''Nd'', ''Pm'', ''Sm'', ''Eu'', ''Gd'', ''Tb'', ''Dy'', ''Ho'', ''Er'',
      ''Tm'', ''Yb'', ''Lu'', ''Hf'', ''Ta'', ''W'', ''Re'', ''Os'', ''Ir'', ''Pt'', ''Au'',
      ''Hg'', ''Tl'', ''Pb'', ''Bi'', ''Po'', ''At'', ''Rn'', ''Fr'', ''Ra'', ''Ac'', ''Th'',
      ''Pa'', ''U'', ''Np'', ''Pu'', ''Am'', ''Cm'', ''Bk'', ''Cf'', ''Es'', ''Fm'', ''Md'',
      ''No'', ''Lr'', ''Rf'', ''Db'', ''Sg'', ''Bh'', ''Hs'', ''Mt'', ''Ds'', ''Rg'', ''Cn'',
      ''Nh'', ''Fl'', ''Mc'', ''Lv'', ''Ts'', ''Og'']"

definition inPeriodicTable :: "jstring \<Rightarrow> bool" where
  "inPeriodicTable s \<longleftrightarrow> s \<in> set (map str periodicTable)"

subsection \<open>Formula syntax pre-check\<close>

text \<open>The pattern \<open>BASIC_FORMULA\<close>,
  \<^verbatim>\<open>^[A-Z][a-z]?\d*(\([A-Z][a-z]?\d*\)\d*|\([A-Z][a-z]?\d*([A-Z][a-z]?\d*)*\)\d*|[A-Z][a-z]?\d*)*$\<close>:
  an element with its count, then any number of items, each an element with its count or a
  parenthesised run of one or more elements followed by digits. No character can be
  matched by two parts of the pattern, so the match is the left-to-right scan below.
  \<open>matchElement\<close> is \<^verbatim>\<open>[A-Z][a-z]?\d*\<close>: the text after the element, if the text starts with
  one.\<close>

definition matchElement :: "jstring \<Rightarrow> jstring option" where
  "matchElement s =
     (case s of
        [] \<Rightarrow> None
      | c # cs \<Rightarrow>
          if isUpper c then
            Some (dropWhile isDigit (case cs of [] \<Rightarrow> cs | d # ds \<Rightarrow> if isLower d then ds else cs))
          else None)"

lemma matchElement_length: "matchElement s = Some r \<Longrightarrow> length r < length s"
proof -
  have le: "length (dropWhile isDigit xs) \<le> length xs" for xs
    by (rule length_dropWhile_le)
  assume "matchElement s = Some r"
  then show ?thesis
    using le [of "tl s"] le [of "tl (tl s)"]
    by (auto simp: matchElement_def split: list.splits if_splits)
qed

function matchElements :: "jstring \<Rightarrow> jstring" where
  "matchElements s = (case matchElement s of None \<Rightarrow> s | Some r \<Rightarrow> matchElements r)"
  by pat_completeness auto
termination
  by (relation "measure length") (auto simp: matchElement_length)

declare matchElements.simps [simp del]

lemma matchElements_length: "length (matchElements s) \<le> length s"
proof (induction s rule: matchElements.induct)
  case (1 s)
  show ?case
  proof (cases "matchElement s")
    case None
    then show ?thesis by (subst matchElements.simps) simp
  next
    case (Some r)
    with "1.IH" [of r] matchElement_length [of s r] show ?thesis
      by (subst matchElements.simps) simp
  qed
qed

function matchItems :: "jstring \<Rightarrow> bool" where
  "matchItems [] = True"
| "matchItems (c # cs) =
     (if c = 40 then
        (case matchElement cs of
           None \<Rightarrow> False
         | Some r \<Rightarrow>
             (case matchElements r of
                [] \<Rightarrow> False
              | d # r' \<Rightarrow> d = 41 \<and> matchItems (dropWhile isDigit r')))
      else
        (case matchElement (c # cs) of
           None \<Rightarrow> False
         | Some r \<Rightarrow> matchItems r))"
  by pat_completeness auto
termination
proof (relation "measure length", goal_cases)
  case 1
  show ?case by simp
next
  case (2 c cs r d r')
  have "length (dropWhile isDigit r') \<le> length r'" by (rule length_dropWhile_le)
  moreover from 2 matchElements_length [of r] have "length r' < length r" by simp
  moreover from 2 matchElement_length [of cs r] have "length r < length cs" by simp
  ultimately show ?case by simp
next
  case (3 c cs r)
  with matchElement_length [of "c # cs" r] show ?case by simp
qed

definition BASIC_FORMULA :: "jstring \<Rightarrow> bool" where
  "BASIC_FORMULA s = (case matchElement s of None \<Rightarrow> False | Some r \<Rightarrow> matchItems r)"

text \<open>The parenthesis counter of \<open>validateFormulaSyntax\<close>.\<close>

fun parenLoop :: "int \<Rightarrow> jstring \<Rightarrow> bool" where
  "parenLoop parenCount [] = (parenCount = 0)"
| "parenLoop parenCount (c # cs) =
     (let p = (if c = 40 then parenCount + 1 else parenCount);
          p' = (if c = 41 then p - 1 else p)
      in if p' < 0 then False else parenLoop p' cs)"

definition validateFormulaSyntax :: "jstring \<Rightarrow> bool" where
  "validateFormulaSyntax f =
     (if f = [] \<or> length (trim f) = 0 then False
      else
        let cleanFormula = trim f in
        if \<not> BASIC_FORMULA cleanFormula then False
        else parenLoop 0 cleanFormula)"

subsection \<open>Validator\<close>

text \<open>The entries of \<open>ValidationResult.errors\<close>, which the source renders as text. The
  \<open>warnings\<close> of a validation result are read by no caller in the core and are left out.\<close>

datatype validation_error =
    PARSING parse_error
  | ELEMENT_NOT_FOUND jstring
  | INVALID_COUNT jstring int
  | TOO_MANY_ATOMS jstring int
  | EMPTY_EQUATION
  | MISSING_ARROW
  | NOT_ONE_ARROW
  | NO_REACTANTS
  | NO_PRODUCTS
  | REACTANT_ERROR nat jstring "validation_error list"
  | PRODUCT_ERROR nat jstring "validation_error list"

record ValidationResult =
  isValid :: bool
  errors :: "validation_error list"

definition validateChemicalFormula :: "(jstring \<Rightarrow> bool) \<Rightarrow> jstring \<Rightarrow> ValidationResult" where
  "validateChemicalFormula isValidElement f =
     (if f = [] \<or> length (trim f) = 0 then
        \<lparr>ValidationResult.isValid = False, errors = [PARSING EMPTY_FORMULA]\<rparr>
      else
        let cleanFormula = trim f in
        if length cleanFormula > MAX_FORMULA_LENGTH then
          \<lparr>ValidationResult.isValid = False, errors = [PARSING FORMULA_TOO_LONG]\<rparr>
        else if \<not> validateFormulaSyntax cleanFormula then
          \<lparr>ValidationResult.isValid = False, errors = [PARSING INVALID_SYNTAX]\<rparr>
        else
          let parsed = parseChemicalFormula isValidElement cleanFormula in
          if \<not> ParsedFormula.isValid parsed then
            \<lparr>ValidationResult.isValid = False,
               errors = [PARSING (case ParsedFormula.error parsed of
                                    Some e \<Rightarrow> e | None \<Rightarrow> INVALID_FORMULA)]\<rparr>
          else
            let errs = concat (map (\<lambda>element.
                         (if \<not> isValidElement (symbol element)
                          then [ELEMENT_NOT_FOUND (symbol element)] else [])
                         @ (if count element \<le> 0
                            then [INVALID_COUNT (symbol element) (count element)] else [])
                         @ (if count element > MAX_ATOMS_PER_MOLECULE
                            then [TOO_MANY_ATOMS (symbol element) (count element)] else []))
                       (ParsedFormula.elements parsed))
            in \<lparr>ValidationResult.isValid = (length errs = 0), errors = errs\<rparr>)"

text \<open>\<open>indexOf\<close>, \<open>includes\<close> and \<open>split\<close> of a string, for a separator that is not
  empty. \<open>None\<close> is the \<open>-1\<close> of \<open>indexOf\<close>.\<close>

fun startsWith :: "jstring \<Rightarrow> jstring \<Rightarrow> bool" where
  "startsWith s [] = True"
| "startsWith [] (p # ps) = False"
| "startsWith (c # cs) (p # ps) = (c = p \<and> startsWith cs ps)"

fun indexOf :: "jstring \<Rightarrow> jstring \<Rightarrow> nat option" where
  "indexOf [] pat = (if pat = [] then Some 0 else None)"
| "indexOf (c # cs) pat =
     (if startsWith (c # cs) pat then Some 0 else map_option Suc (indexOf cs pat))"

definition includes_str :: "jstring \<Rightarrow> jstring \<Rightarrow> bool" where
  "includes_str s pat = (indexOf s pat \<noteq> None)"

lemma indexOf_le: "indexOf s pat = Some i \<Longrightarrow> i \<le> length s"
  by (induction s arbitrary: i) (auto split: if_splits)

function split :: "jstring \<Rightarrow> jstring \<Rightarrow> jstring list" where
  "split s sep =
     (if sep = [] then map (\<lambda>c. [c]) s
      else case indexOf s sep of
             None \<Rightarrow> [s]
           | Some i \<Rightarrow> take i s # split (drop (i + length sep) s) sep)"
  by pat_completeness auto
termination
proof (relation "measure (\<lambda>(s, sep). length s)", goal_cases)
  case 1
  show ?case by simp
next
  case (2 s sep i)
  then have "s \<noteq> []" by (cases s) auto
  with 2 show ?case by (cases sep) auto
qed

declare split.simps [simp del]

definition ARROW :: jstring where
  "ARROW = [8594]"

definition ASCII_ARROW :: jstring where
  "ASCII_ARROW = [45, 62]"

definition EQUALS :: jstring where
  "EQUALS = [61]"

definition PLUS :: jstring where
  "PLUS = [43]"

text \<open>\<open>f.trim().replace(/^\d+/, '')\<close>.\<close>

definition stripCoefficient :: "jstring \<Rightarrow> jstring" where
  "stripCoefficient f = dropWhile isDigit (trim f)"

text \<open>The two loops of \<open>validateChemicalEquation\<close> over the formulas of a side; \<open>i\<close> is
  the loop index and \<open>mk\<close> builds the message of the side.\<close>

fun validateFormulas ::
  "(jstring \<Rightarrow> bool) \<Rightarrow> (nat \<Rightarrow> jstring \<Rightarrow> validation_error list \<Rightarrow> validation_error)
   \<Rightarrow> nat \<Rightarrow> jstring list \<Rightarrow> validation_error list" where
  "validateFormulas isValidElement mk i [] = []"
| "validateFormulas isValidElement mk i (f # fs) =
     (if f \<noteq> [] then
        (let validation = validateChemicalFormula isValidElement f in
         if \<not> ValidationResult.isValid validation
         then [mk (i + 1) f (ValidationResult.errors validation)] else [])
      else [])
     @ validateFormulas isValidElement mk (i + 1) fs"

definition validateChemicalEquation :: "(jstring \<Rightarrow> bool) \<Rightarrow> jstring \<Rightarrow> ValidationResult" where
  "validateChemicalEquation isValidElement equation =
     (if equation = [] \<or> length (trim equation) = 0 then
        \<lparr>ValidationResult.isValid = False, errors = [EMPTY_EQUATION]\<rparr>
      else
        case find (\<lambda>arrow. includes_str equation arrow) [ARROW, ASCII_ARROW, EQUALS, ARROW] of
          None \<Rightarrow> \<lparr>ValidationResult.isValid = False, errors = [MISSING_ARROW]\<rparr>
        | Some arrowSymbol \<Rightarrow>
            (case split equation arrowSymbol of
               [reactantsStr, productsStr] \<Rightarrow>
                 (let errs = (if trim reactantsStr = [] then [NO_REACTANTS] else [])
                             @ (if trim productsStr = [] then [NO_PRODUCTS] else [])
                  in if length errs > 0 then \<lparr>ValidationResult.isValid = False, errors = errs\<rparr>
                     else
                       let reactantFormulas = map stripCoefficient (split reactantsStr PLUS);
                           productFormulas = map stripCoefficient (split productsStr PLUS);
                           errs' = validateFormulas isValidElement REACTANT_ERROR 0 reactantFormulas
                                   @ validateFormulas isValidElement PRODUCT_ERROR 0 productFormulas
                       in \<lparr>ValidationResult.isValid = (length errs' = 0), errors = errs'\<rparr>)
             | _ \<Rightarrow> \<lparr>ValidationResult.isValid = False, errors = [NOT_ONE_ARROW]\<rparr>))"

subsection \<open>Numeric helpers\<close>

text \<open>\<open>gcd(numbers)\<close> and \<open>lcm(numbers)\<close> of the helpers module. \<open>gcdTwo\<close> takes
  absolute values and runs Euclid's loop; \<open>reduce\<close> without a start value begins at the
  first entry.\<close>

function gcdTwo_loop :: "int \<Rightarrow> int \<Rightarrow> int" where
  "gcdTwo_loop a b = (if b \<noteq> 0 then gcdTwo_loop b (a smod b) else a)"
  by pat_completeness auto
termination
proof (relation "measure (\<lambda>(a, b). nat \<bar>b\<bar>)")
  show "wf (measure (\<lambda>(a, b). nat \<bar>b\<bar>))" by simp
next
  fix a b :: int
  assume "b \<noteq> 0"
  then have "\<bar>a smod b\<bar> < \<bar>b\<bar>"
    by (simp add: signed_modulo_int_def abs_mult abs_sgn_eq)
  then show "((b, a smod b), (a, b)) \<in> measure (\<lambda>(a, b). nat \<bar>b\<bar>)"
    by simp
qed

declare gcdTwo_loop.simps [simp del]

definition gcdTwo :: "int \<Rightarrow> int \<Rightarrow> int" where
  "gcdTwo a b = gcdTwo_loop \<bar>a\<bar> \<bar>b\<bar>"

definition gcd_helper :: "int list \<Rightarrow> int" where
  "gcd_helper numbers =
     (if length numbers = 0 then 1
      else if length numbers = 1 then \<bar>hd numbers\<bar>
      else foldl (\<lambda>acc curr. gcdTwo acc \<bar>curr\<bar>) (hd numbers) (tl numbers))"

definition lcmTwo :: "int \<Rightarrow> int \<Rightarrow> int" where
  "lcmTwo a b = \<bar>a * b\<bar> div gcd_helper [a, b]"

definition lcm_helper :: "int list \<Rightarrow> int" where
  "lcm_helper numbers =
     (if length numbers = 0 then 1
      else if length numbers = 1 then \<bar>hd numbers\<bar>
      else foldl (\<lambda>acc curr. lcmTwo acc \<bar>curr\<bar>) (hd numbers) (tl numbers))"

subsection \<open>Equation parser\<close>

record EquationCompound =
  formula :: jstring
  coefficient :: int

record ChemicalEquation =
  reactants :: "EquationCompound list"
  products :: "EquationCompound list"

datatype side = In_reactants | In_products

datatype BalanceMethod = Trial_and_error | Algebraic

text \<open>The \<open>error\<close> texts of an equation parse or of a balance.\<close>

datatype balance_error =
    VALIDATION "validation_error list"
  | NO_ARROW_FOUND
  | INVALID_FORMAT side jstring
  | INVALID_COEFFICIENT int
  | INVALID_FORMULA_IN side jstring
  | CANNOT_BALANCE int
  | OVERDETERMINED
  | SOLUTION_NOT_BALANCED
  | ALGEBRAIC_ERROR exn

record EquationParseResult =
  reactants :: "EquationCompound list"
  products :: "EquationCompound list"
  allElements :: "jstring list"
  isValid :: bool
  error :: "balance_error option"

text \<open>\<open>part.match(/^(\d*)\s*(.+)$/)\<close>: the two groups, or \<open>None\<close> for no match. The dot
  matches no line terminator. With \<open>D\<close> the leading digits, \<open>W\<close> the white space after
  them and \<open>R\<close> the rest: when \<open>R\<close> is not empty the groups are \<open>D\<close> and \<open>R\<close>; otherwise
  the pattern backtracks and gives the last character up to the second group.\<close>

definition isLineTerminator :: "nat \<Rightarrow> bool" where
  "isLineTerminator c \<longleftrightarrow> c = 10 \<or> c = 13 \<or> c = 8232 \<or> c = 8233"

definition matchCompound :: "jstring \<Rightarrow> (jstring \<times> jstring) option" where
  "matchCompound part =
     (let D = takeWhile isDigit part;
          W = takeWhile isSpace (dropWhile isDigit part);
          R = dropWhile isSpace (dropWhile isDigit part)
      in if R \<noteq> [] then (if list_ex isLineTerminator R then None else Some (D, R))
         else if W \<noteq> [] then (if isLineTerminator (last W) then None else Some (D, [last W]))
         else if D \<noteq> [] then Some (butlast D, [last D])
         else None)"

text \<open>The loop of \<open>parseCompoundsList\<close> over the trimmed parts, with the compounds pushed
  so far.\<close>

fun parseCompounds ::
  "(jstring \<Rightarrow> bool) \<Rightarrow> side \<Rightarrow> EquationCompound list \<Rightarrow> jstring list
   \<Rightarrow> balance_error + EquationCompound list" where
  "parseCompounds isValidElement type compounds [] = Inr compounds"
| "parseCompounds isValidElement type compounds (part # parts) =
     (if part = [] then parseCompounds isValidElement type compounds parts
      else case matchCompound part of
        None \<Rightarrow> Inl (INVALID_FORMAT type part)
      | Some (coefficientStr, text) \<Rightarrow>
          (let f = trim text;
               c = (if coefficientStr \<noteq> [] then parseInt coefficientStr else 1)
           in if c \<le> 0 \<or> c > MAX_COEFFICIENT then Inl (INVALID_COEFFICIENT c)
              else if \<not> ParsedFormula.isValid (parseChemicalFormula isValidElement f)
                then Inl (INVALID_FORMULA_IN type f)
              else parseCompounds isValidElement type
                     (compounds @ [\<lparr>formula = f, coefficient = c\<rparr>]) parts))"

definition parseCompoundsList ::
  "(jstring \<Rightarrow> bool) \<Rightarrow> jstring \<Rightarrow> side \<Rightarrow> balance_error + EquationCompound list" where
  "parseCompoundsList isValidElement compoundsStr type =
     parseCompounds isValidElement type [] (map trim (split compoundsStr PLUS))"

text \<open>A \<open>Set\<close> keeps insertion order; \<open>Array.from(set).sort()\<close> orders the symbols by
  code units, the lexicographic order of lists.\<close>

definition setAdd :: "jstring list \<Rightarrow> jstring \<Rightarrow> jstring list" where
  "setAdd elementSet s = (if s \<in> set elementSet then elementSet else elementSet @ [s])"

definition getAllElements :: "(jstring \<Rightarrow> bool) \<Rightarrow> EquationCompound list \<Rightarrow> jstring list" where
  "getAllElements isValidElement compounds =
     sort (foldl (\<lambda>elementSet compound.
                    let parsed = parseChemicalFormula isValidElement (formula compound) in
                    if ParsedFormula.isValid parsed
                    then foldl (\<lambda>es element. setAdd es (symbol element)) elementSet
                           (ParsedFormula.elements parsed)
                    else elementSet)
             [] compounds)"

text \<open>The search for the reaction arrow: the first pattern, in the order of the list, that
  occurs in the equation, with the index of its first occurrence.\<close>

fun findArrow :: "jstring \<Rightarrow> jstring list \<Rightarrow> (jstring \<times> nat) option" where
  "findArrow equation [] = None"
| "findArrow equation (arrow # arrows) =
     (case indexOf equation arrow of
        Some index \<Rightarrow> Some (arrow, index)
      | None \<Rightarrow> findArrow equation arrows)"

definition parseChemicalEquation :: "(jstring \<Rightarrow> bool) \<Rightarrow> jstring \<Rightarrow> EquationParseResult" where
  "parseChemicalEquation isValidElement equation =
     (let validation = validateChemicalEquation isValidElement equation in
      if \<not> ValidationResult.isValid validation then
        \<lparr>EquationParseResult.reactants = [], products = [], allElements = [], isValid = False,
           error = Some (VALIDATION (ValidationResult.errors validation))\<rparr>
      else
        case findArrow equation [ARROW, ASCII_ARROW, EQUALS] of
          None \<Rightarrow>
            \<lparr>EquationParseResult.reactants = [], products = [], allElements = [], isValid = False,
               error = Some NO_ARROW_FOUND\<rparr>
        | Some (arrowSymbol, arrowIndex) \<Rightarrow>
            (let reactantsStr = trim (take arrowIndex equation);
                 productsStr = trim (drop (arrowIndex + length arrowSymbol) equation)
             in case parseCompoundsList isValidElement reactantsStr In_reactants of
                  Inl e \<Rightarrow>
                    \<lparr>EquationParseResult.reactants = [], products = [], allElements = [],
                       isValid = False, error = Some e\<rparr>
                | Inr rs \<Rightarrow>
                    (case parseCompoundsList isValidElement productsStr In_products of
                       Inl e \<Rightarrow>
                         \<lparr>EquationParseResult.reactants = [], products = [], allElements = [],
                            isValid = False, error = Some e\<rparr>
                     | Inr ps \<Rightarrow>
                         \<lparr>EquationParseResult.reactants = rs, products = ps,
                            allElements = getAllElements isValidElement (rs @ ps),
                            isValid = True, error = None\<rparr>)))"

subsection \<open>Trial-and-error balancer\<close>

definition countElementInSide ::
  "(jstring \<Rightarrow> bool) \<Rightarrow> EquationCompound list \<Rightarrow> jstring \<Rightarrow> int" where
  "countElementInSide isValidElement compounds element =
     foldl (\<lambda>totalCount compound.
              let parsed = parseChemicalFormula isValidElement (formula compound) in
              if ParsedFormula.isValid parsed then
                (case find (\<lambda>el. symbol el = element) (ParsedFormula.elements parsed) of
                   Some elementData \<Rightarrow> totalCount + count elementData * coefficient compound
                 | None \<Rightarrow> totalCount)
              else totalCount)
       0 compounds"

text \<open>\<open>compounds.map((compound, i) => ({...compound, coefficient: coeffs[i]}))\<close>. Every
  caller passes one coefficient per compound.\<close>

definition withCoefficients :: "EquationCompound list \<Rightarrow> int list \<Rightarrow> EquationCompound list" where
  "withCoefficients compounds coeffs =
     map (\<lambda>(compound, c). compound\<lparr>coefficient := c\<rparr>) (zip compounds coeffs)"

definition checkBalance ::
  "(jstring \<Rightarrow> bool) \<Rightarrow> EquationCompound list \<Rightarrow> EquationCompound list \<Rightarrow> int list \<Rightarrow> int list
   \<Rightarrow> jstring list \<Rightarrow> bool" where
  "checkBalance isValidElement rs ps reactantCoeffs productCoeffs allElems =
     (let tempReactants = withCoefficients rs reactantCoeffs;
          tempProducts = withCoefficients ps productCoeffs
      in list_all (\<lambda>element.
                     \<not> (countElementInSide isValidElement tempReactants element
                        \<noteq> countElementInSide isValidElement tempProducts element))
           allElems)"

text \<open>\<open>getNextCombination\<close> walks the array from its last slot; the model walks the reversed
  list and returns the flag together with the array as the source leaves it.\<close>

fun nextFromLast :: "int list \<Rightarrow> int \<Rightarrow> bool \<times> int list" where
  "nextFromLast [] maxCoeff = (False, [])"
| "nextFromLast (c # cs) maxCoeff =
     (if c < maxCoeff then (True, (c + 1) # cs)
      else (let (b, cs') = nextFromLast cs maxCoeff in (b, 1 # cs')))"

definition getNextCombination :: "int list \<Rightarrow> int \<Rightarrow> bool \<times> int list" where
  "getNextCombination coefficients maxCoeff =
     (let (b, cs) = nextFromLast (rev coefficients) maxCoeff in (b, rev cs))"

definition simplifyCoefficients :: "int list \<Rightarrow> int list" where
  "simplifyCoefficients coefficients =
     (let gcdValue = gcd_helper coefficients
      in if gcdValue > 1 then map (\<lambda>coeff. coeff div gcdValue) coefficients else coefficients)"

text \<open>A balance result without its display fields: the step trace \<open>steps\<close> and the
  rendered \<open>balancedEquation\<close> are text for the user interface and decide nothing.\<close>

record BalanceResult =
  originalEquation :: ChemicalEquation
  balancedReactants :: "EquationCompound list"
  balancedProducts :: "EquationCompound list"
  "method" :: BalanceMethod
  isValid :: bool
  error :: "balance_error option"

definition maxCoefficient :: int where
  "maxCoefficient = 15"

text \<open>The \<open>while\<close> loop of \<open>balanceByTrialAndError\<close>. Its state is the two coefficient
  arrays and the iteration count; the loop returns the result of the function.\<close>

function trialLoop ::
  "(jstring \<Rightarrow> bool) \<Rightarrow> ChemicalEquation \<Rightarrow> jstring list \<Rightarrow> int \<Rightarrow> int list \<Rightarrow> int list \<Rightarrow> int
   \<Rightarrow> BalanceResult" where
  "trialLoop isValidElement eqn allElems maxIterations reactantCoeffs productCoeffs iteration =
     (if iteration < maxIterations then
        if checkBalance isValidElement (ChemicalEquation.reactants eqn)
             (ChemicalEquation.products eqn) reactantCoeffs productCoeffs allElems
        then
          (let numReactants = length (ChemicalEquation.reactants eqn);
               allCoeffs = reactantCoeffs @ productCoeffs;
               simplified = simplifyCoefficients allCoeffs;
               finalReactantCoeffs = take numReactants simplified;
               finalProductCoeffs = drop numReactants simplified
           in \<lparr>originalEquation = eqn,
                balancedReactants =
                  withCoefficients (ChemicalEquation.reactants eqn) finalReactantCoeffs,
                balancedProducts =
                  withCoefficients (ChemicalEquation.products eqn) finalProductCoeffs,
                method = Trial_and_error, isValid = True, error = None\<rparr>)
        else
          (case getNextCombination productCoeffs maxCoefficient of
             (True, productCoeffs') \<Rightarrow>
               trialLoop isValidElement eqn allElems maxIterations reactantCoeffs productCoeffs'
                 (iteration + 1)
           | (False, productCoeffs') \<Rightarrow>
               (case getNextCombination reactantCoeffs maxCoefficient of
                  (True, reactantCoeffs') \<Rightarrow>
                    trialLoop isValidElement eqn allElems maxIterations reactantCoeffs'
                      (replicate (length productCoeffs') 1) (iteration + 1)
                | (False, reactantCoeffs') \<Rightarrow>
                    \<lparr>originalEquation = eqn,
                       balancedReactants = ChemicalEquation.reactants eqn,
                       balancedProducts = ChemicalEquation.products eqn,
                       method = Trial_and_error, isValid = False,
                       error = Some (CANNOT_BALANCE iteration)\<rparr>))
      else
        \<lparr>originalEquation = eqn,
           balancedReactants = ChemicalEquation.reactants eqn,
           balancedProducts = ChemicalEquation.products eqn,
           method = Trial_and_error, isValid = False,
           error = Some (CANNOT_BALANCE iteration)\<rparr>)"
  by pat_completeness auto
termination
  by (relation "measure (\<lambda>(v, eqn, els, maxIterations, rc, pc, iteration).
                   nat (maxIterations - iteration))") auto

declare trialLoop.simps [simp del]

definition balanceByTrialAndError ::
  "(jstring \<Rightarrow> bool) \<Rightarrow> ChemicalEquation \<Rightarrow> int \<Rightarrow> BalanceResult" where
  "balanceByTrialAndError isValidElement eqn maxIterations =
     (let allElems = getAllElements isValidElement
                       (ChemicalEquation.reactants eqn @ ChemicalEquation.products eqn);
          initialReactantCoeffs = replicate (length (ChemicalEquation.reactants eqn)) 1;
          initialProductCoeffs = replicate (length (ChemicalEquation.products eqn)) 1
      in if checkBalance isValidElement (ChemicalEquation.reactants eqn)
              (ChemicalEquation.products eqn) initialReactantCoeffs initialProductCoeffs allElems
         then
           \<lparr>originalEquation = eqn,
              balancedReactants = ChemicalEquation.reactants eqn,
              balancedProducts = ChemicalEquation.products eqn,
              method = Trial_and_error, isValid = True, error = None\<rparr>
         else
           trialLoop isValidElement eqn allElems maxIterations
             (replicate (length (ChemicalEquation.reactants eqn)) 1)
             (replicate (length (ChemicalEquation.products eqn)) 1) 0)"

subsection \<open>Algebraic balancer\<close>

type_synonym matrix = "RobustFraction list list"

fun foldE :: "('b \<Rightarrow> 'a \<Rightarrow> exn + 'b) \<Rightarrow> 'b \<Rightarrow> 'a list \<Rightarrow> exn + 'b" where
  "foldE f acc [] = Inr acc"
| "foldE f acc (x # xs) = bindE (f acc x) (\<lambda>acc'. foldE f acc' xs)"

text \<open>The first loop of \<open>buildElementMatrix\<close>: the element set and, for each compound, the
  dictionary of its atom counts; it throws at the first formula that does not parse.\<close>

fun collectElements ::
  "(jstring \<Rightarrow> bool) \<Rightarrow> EquationCompound list \<Rightarrow> jstring list \<Rightarrow> counts list
   \<Rightarrow> exn + jstring list \<times> counts list" where
  "collectElements isValidElement [] elementSet compoundElements =
     Inr (elementSet, compoundElements)"
| "collectElements isValidElement (compound # compounds) elementSet compoundElements =
     (let parsed = parseChemicalFormula isValidElement (formula compound) in
      if \<not> ParsedFormula.isValid parsed then Inl (CannotParse (formula compound))
      else collectElements isValidElement compounds
             (foldl (\<lambda>es element. setAdd es (symbol element)) elementSet
                (ParsedFormula.elements parsed))
             (compoundElements
              @ [foldl (\<lambda>elementsDict element. setKey (symbol element) (count element) elementsDict)
                   [] (ParsedFormula.elements parsed)]))"

text \<open>\<open>compoundElements[i][element] || 0\<close>.\<close>

definition countOr0 :: "counts \<Rightarrow> jstring \<Rightarrow> int" where
  "countOr0 elementsDict element =
     (case map_of elementsDict element of None \<Rightarrow> 0 | Some c \<Rightarrow> c)"

definition buildElementMatrix ::
  "(jstring \<Rightarrow> bool) \<Rightarrow> ChemicalEquation \<Rightarrow> exn + matrix \<times> jstring list \<times> jstring list" where
  "buildElementMatrix isValidElement eqn =
     (let allCompounds = ChemicalEquation.reactants eqn @ ChemicalEquation.products eqn;
          compoundFormulas = map formula allCompounds;
          numReactants = length (ChemicalEquation.reactants eqn)
      in bindE (collectElements isValidElement allCompounds [] [])
           (\<lambda>(elementSet, compoundElements).
              let elems = sort elementSet in
              bindE (mapE (\<lambda>element.
                       bindE (mapE (\<lambda>d. newRobustFraction (countOr0 d element) 1)
                                (take numReactants compoundElements))
                         (\<lambda>left.
                            bindE (mapE (\<lambda>d. newRobustFraction (- countOr0 d element) 1)
                                     (drop numReactants compoundElements))
                              (\<lambda>right. Inr (left @ right))))
                     elems)
                (\<lambda>m. Inr (m, elems, compoundFormulas))))"

text \<open>The pivot search of one column: the rows from \<open>currentRow\<close> on, \<open>row\<close> being the
  index of the first of \<open>rows\<close>. \<open>None\<close> is the \<open>-1\<close> of \<open>bestPivotRow\<close>.\<close>

fun pivotSearch ::
  "nat \<Rightarrow> nat \<Rightarrow> matrix \<Rightarrow> nat option \<times> RobustFraction
   \<Rightarrow> exn + nat option \<times> RobustFraction" where
  "pivotSearch col row [] best = Inr best"
| "pivotSearch col row (r # rows) (bestPivotRow, bestPivotValue) =
     bindE (abs_fraction (r ! col))
       (\<lambda>a. bindE (abs_fraction bestPivotValue)
          (\<lambda>b. if toDecimal a > toDecimal b
                then pivotSearch col (Suc row) rows (Some row, r ! col)
                else pivotSearch col (Suc row) rows (bestPivotRow, bestPivotValue)))"

text \<open>The elimination of column \<open>col\<close> from every row but the pivot row; \<open>row\<close> is the
  index of the first of \<open>rows\<close>.\<close>

fun eliminateRows ::
  "nat \<Rightarrow> nat \<Rightarrow> RobustFraction list \<Rightarrow> nat \<Rightarrow> matrix \<Rightarrow> exn + matrix" where
  "eliminateRows col currentRow pivotRow row [] = Inr []"
| "eliminateRows col currentRow pivotRow row (r # rows) =
     bindE (if row \<noteq> currentRow \<and> \<not> isZero (r ! col) then
              (let factor = r ! col in
               mapE (\<lambda>(x, p). bindE (multiply p factor) (\<lambda>subtraction. subtract x subtraction))
                 (zip r pivotRow))
            else Inr r)
       (\<lambda>r'. bindE (eliminateRows col currentRow pivotRow (Suc row) rows)
                (\<lambda>rows'. Inr (r' # rows')))"

text \<open>The column loop of \<open>gaussianEliminationRobust\<close>. Every row of the matrix has \<open>cols\<close>
  entries, so a loop over the entries of a row is a map over the row.\<close>

function gaussLoop ::
  "nat \<Rightarrow> nat \<Rightarrow> nat \<Rightarrow> nat \<Rightarrow> matrix \<Rightarrow> nat list \<Rightarrow> exn + matrix \<times> nat list" where
  "gaussLoop rows cols col currentRow workMatrix pivotCols =
     (if col < cols \<and> currentRow < rows then
        bindE (newRobustFraction 0 1)
          (\<lambda>zero.
        bindE (pivotSearch col currentRow (drop currentRow workMatrix) (None, zero))
          (\<lambda>(bestPivotRow, bestPivotValue).
             case bestPivotRow of
               None \<Rightarrow> gaussLoop rows cols (Suc col) currentRow workMatrix pivotCols
             | Some best \<Rightarrow>
                 if isZero bestPivotValue
                 then gaussLoop rows cols (Suc col) currentRow workMatrix pivotCols
                 else
                   (let swapped =
                          (if best \<noteq> currentRow
                           then workMatrix[currentRow := workMatrix ! best,
                                           best := workMatrix ! currentRow]
                           else workMatrix);
                        pivotValue = swapped ! currentRow ! col
                    in bindE (if \<not> isOne pivotValue
                              then mapE (\<lambda>x. divide_fraction x pivotValue) (swapped ! currentRow)
                              else Inr (swapped ! currentRow))
                         (\<lambda>pivotRow.
                            bindE (eliminateRows col currentRow pivotRow 0
                                     (swapped[currentRow := pivotRow]))
                              (\<lambda>eliminated.
                                 gaussLoop rows cols (Suc col) (Suc currentRow) eliminated
                                   (pivotCols @ [col]))))))
      else Inr (workMatrix, pivotCols))"
  by pat_completeness auto
termination
  by (relation "measure (\<lambda>(rows, cols, col, currentRow, workMatrix, pivotCols). cols - col)")
     auto

declare gaussLoop.simps [simp del]

text \<open>\<open>matrix[0].length\<close> throws a \<open>TypeError\<close> on a matrix without rows.\<close>

definition gaussianEliminationRobust :: "matrix \<Rightarrow> exn + matrix \<times> nat \<times> nat list" where
  "gaussianEliminationRobust m =
     (case m of
        [] \<Rightarrow> Inl TypeError
      | row0 # _ \<Rightarrow>
          bindE (mapE (mapE (\<lambda>f. newRobustFraction (num f) (den f))) m)
            (\<lambda>workMatrix.
               bindE (gaussLoop (length m) (length row0) 0 0 workMatrix [])
                 (\<lambda>(reducedMatrix, pivotCols). Inr (reducedMatrix, length pivotCols, pivotCols))))"

text \<open>The back substitution of \<open>findNullSpace\<close>: \<open>for (i = rank - 1; i >= 0; i--)\<close>, by
  recursion on \<open>i + 1\<close>.\<close>

fun backSubstitute ::
  "matrix \<Rightarrow> nat list \<Rightarrow> nat \<Rightarrow> nat \<Rightarrow> nat \<Rightarrow> RobustFraction list \<Rightarrow> exn + RobustFraction list" where
  "backSubstitute reducedMatrix pivotCols numVars freeVarIndex 0 solution = Inr solution"
| "backSubstitute reducedMatrix pivotCols numVars freeVarIndex (Suc i) solution =
     (let pivotCol = pivotCols ! i in
      if pivotCol = freeVarIndex
      then backSubstitute reducedMatrix pivotCols numVars freeVarIndex i solution
      else
        bindE (newRobustFraction 0 1)
          (\<lambda>zero.
        bindE (foldE (\<lambda>sum j. bindE (multiply (reducedMatrix ! i ! j) (solution ! j)) (add sum))
                 zero [Suc pivotCol ..< numVars])
          (\<lambda>sum. bindE (negate sum)
             (\<lambda>value. backSubstitute reducedMatrix pivotCols numVars freeVarIndex i
                         (solution[pivotCol := value])))))"

definition findNullSpace ::
  "matrix \<Rightarrow> nat \<Rightarrow> nat list \<Rightarrow> nat \<Rightarrow> exn + RobustFraction list" where
  "findNullSpace reducedMatrix rank pivotCols numVars =
     (let freeVars = filter (\<lambda>i. i \<notin> set pivotCols) [0 ..< numVars];
          freeVarIndex = (if length freeVars > 0 then hd freeVars else numVars - 1)
      in bindE (mapE (\<lambda>_. newRobustFraction 0 1) (replicate numVars ()))
           (\<lambda>solution.
              bindE (newRobustFraction 1 1)
                (\<lambda>one. backSubstitute reducedMatrix pivotCols numVars freeVarIndex rank
                          (solution[freeVarIndex := one]))))"

text \<open>\<open>Math.round(q)\<close> of a quotient \<open>a / b\<close> with \<open>a \<ge> 0\<close> and \<open>b > 0\<close>: the nearest
  integer, halves upwards.\<close>

definition roundDiv :: "int \<Rightarrow> int \<Rightarrow> int" where
  "roundDiv a b = (2 * a + b) div (2 * b)"

definition normalizeToPositiveIntegers :: "RobustFraction list \<Rightarrow> exn + int list" where
  "normalizeToPositiveIntegers fractionSolution =
     (let allNegative = list_all (\<lambda>f. num f \<le> 0) fractionSolution
      in bindE (if allNegative then mapE negate fractionSolution else Inr fractionSolution)
           (\<lambda>fs.
              let denominators = map den fs;
                  lcmValue = foldl (\<lambda>a b. lcm_helper [a, b]) 1 denominators;
                  integers = map (\<lambda>f. (num f * lcmValue) div den f) fs;
                  positiveIntegers = filter (\<lambda>x. x > 0) (map abs integers);
                  gcdValue = (if length positiveIntegers > 0 then gcd_helper positiveIntegers else 1)
              in Inr (map (\<lambda>x. roundDiv \<bar>x\<bar> gcdValue) integers)))"

text \<open>\<open>validateSolutionExhaustive\<close>: the two inner loops add up, for one element, the atoms
  of each side under the coefficients; \<open>coefficients\<close> has one entry per compound.\<close>

definition weightedCount ::
  "(jstring \<Rightarrow> bool) \<Rightarrow> jstring \<Rightarrow> (EquationCompound \<times> int) list \<Rightarrow> int" where
  "weightedCount isValidElement element pairs =
     foldl (\<lambda>total (compound, c).
              let parsed = parseChemicalFormula isValidElement (formula compound) in
              if ParsedFormula.isValid parsed then
                (case find (\<lambda>el. symbol el = element) (ParsedFormula.elements parsed) of
                   Some elementData \<Rightarrow> total + count elementData * c
                 | None \<Rightarrow> total)
              else total)
       0 pairs"

definition validateSolutionExhaustive ::
  "(jstring \<Rightarrow> bool) \<Rightarrow> ChemicalEquation \<Rightarrow> int list \<Rightarrow> jstring list \<Rightarrow> bool" where
  "validateSolutionExhaustive isValidElement eqn coefficients elems =
     (let numReactants = length (ChemicalEquation.reactants eqn)
      in list_all (\<lambda>element.
           \<not> (weightedCount isValidElement element
                 (zip (ChemicalEquation.reactants eqn) (take numReactants coefficients))
               \<noteq> weightedCount isValidElement element
                   (zip (ChemicalEquation.products eqn) (drop numReactants coefficients))))
           elems)"

definition createErrorResult ::
  "ChemicalEquation \<Rightarrow> BalanceMethod \<Rightarrow> balance_error \<Rightarrow> BalanceResult" where
  "createErrorResult eqn m e =
     \<lparr>originalEquation = eqn,
        balancedReactants = ChemicalEquation.reactants eqn,
        balancedProducts = ChemicalEquation.products eqn,
        method = m, isValid = False, error = Some e\<rparr>"

text \<open>The body of the \<open>try\<close> block of \<open>balanceByAlgebraicMethodRobust\<close>.\<close>

definition algebraicAttempt :: "(jstring \<Rightarrow> bool) \<Rightarrow> ChemicalEquation \<Rightarrow> exn + BalanceResult" where
  "algebraicAttempt isValidElement eqn =
     bindE (buildElementMatrix isValidElement eqn)
       (\<lambda>(m, elems, compounds).
          bindE (gaussianEliminationRobust m)
            (\<lambda>(reducedMatrix, rank, pivotCols).
               let numVars = length compounds in
               if rank = numVars then Inr (createErrorResult eqn Algebraic OVERDETERMINED)
               else
                 bindE (findNullSpace reducedMatrix rank pivotCols numVars)
                   (\<lambda>fractionSolution.
                      bindE (normalizeToPositiveIntegers fractionSolution)
                        (\<lambda>integerCoeffs.
                           if \<not> validateSolutionExhaustive isValidElement eqn integerCoeffs elems
                           then Inr (createErrorResult eqn Algebraic SOLUTION_NOT_BALANCED)
                           else
                             let numReactants = length (ChemicalEquation.reactants eqn);
                                 reactantCoeffs = take numReactants integerCoeffs;
                                 productCoeffs = drop numReactants integerCoeffs
                             in Inr \<lparr>originalEquation = eqn,
                                      balancedReactants =
                                        withCoefficients (ChemicalEquation.reactants eqn)
                                          reactantCoeffs,
                                      balancedProducts =
                                        withCoefficients (ChemicalEquation.products eqn)
                                          productCoeffs,
                                      method = Algebraic, isValid = True, error = None\<rparr>))))"

definition balanceByAlgebraicMethodRobust ::
  "(jstring \<Rightarrow> bool) \<Rightarrow> ChemicalEquation \<Rightarrow> BalanceResult" where
  "balanceByAlgebraicMethodRobust isValidElement eqn =
     (case algebraicAttempt isValidElement eqn of
        Inr result \<Rightarrow> result
      | Inl e \<Rightarrow> createErrorResult eqn Algebraic (ALGEBRAIC_ERROR e))"

subsection \<open>Entry point\<close>

record BalanceInput =
  equation :: jstring
  "method" :: "BalanceMethod option"

definition DEFAULT_MAX_ITERATIONS :: int where
  "DEFAULT_MAX_ITERATIONS = 10000"

text \<open>\<open>balanceChemicalEquation\<close>. The \<open>default\<close> branch of its \<open>switch\<close> is outside the type
  of \<open>method\<close> and has no counterpart.\<close>

definition balanceChemicalEquation :: "(jstring \<Rightarrow> bool) \<Rightarrow> BalanceInput \<Rightarrow> BalanceResult" where
  "balanceChemicalEquation isValidElement input =
     (let m = (case BalanceInput.method input of None \<Rightarrow> Trial_and_error | Some m' \<Rightarrow> m');
          parseResult = parseChemicalEquation isValidElement (equation input)
      in if \<not> EquationParseResult.isValid parseResult then
           \<lparr>originalEquation = \<lparr>ChemicalEquation.reactants = [], products = []\<rparr>,
              balancedReactants = [], balancedProducts = [],
              method = m, isValid = False, error = EquationParseResult.error parseResult\<rparr>
         else
           let chemicalEquation =
                 \<lparr>ChemicalEquation.reactants = EquationParseResult.reactants parseResult,
                    products = EquationParseResult.products parseResult\<rparr>
           in case m of
                Trial_and_error \<Rightarrow>
                  balanceByTrialAndError isValidElement chemicalEquation DEFAULT_MAX_ITERATIONS
              | Algebraic \<Rightarrow> balanceByAlgebraicMethodRobust isValidElement chemicalEquation)"

subsection \<open>The arithmetic on doubles\<close>

text \<open>
  A \<open>number\<close> of JavaScript is an IEEE-754 binary64 value: a finite value, which is a
  rational, one of the two infinities, or \<open>NaN\<close>. The sign of a zero is left out: no
  function embedded below divides by a zero or reads the sign of one (the constructor of
  the fraction class divides by the result of its gcd, which is zero only for a zero
  denominator, and that is refused before; \<open>lcmTwo\<close> divides by a zero only as \<open>0 / 0\<close>).
  A division of a non-zero finite value by a zero is taken as by \<open>+0\<close>.

  The integer embedding above is this arithmetic as long as every value is an integer
  below \<open>2^53\<close> in magnitude. Beyond, a result is rounded to 53 significant bits, and from
  \<open>2^1024\<close> on it is an infinity. The fraction class and the helpers \<open>gcd\<close>, \<open>lcm\<close> and
  \<open>normalizeToPositiveIntegers\<close> are embedded here a second time, on doubles, under the
  names of the source followed by \<open>64\<close>.
\<close>

datatype number = Fin rat | PInf | NInf | NaN

text \<open>The number of binary digits of a natural number.\<close>

fun bitLength :: "nat \<Rightarrow> nat" where
  "bitLength n = (if n = 0 then 0 else Suc (bitLength (n div 2)))"

declare bitLength.simps [simp del]

text \<open>The quotient \<open>a / b\<close> rounded to the nearest integer, a tie to the even one.\<close>

definition roundHalfEven :: "nat \<Rightarrow> nat \<Rightarrow> nat" where
  "roundHalfEven a b =
     (let q = a div b; r = a mod b
      in if 2 * r < b then q else if b < 2 * r then q + 1 else if even q then q else q + 1)"

text \<open>The binary exponent of a positive rational \<open>p / d\<close>: the \<open>e\<close> with
  \<open>2^e \<le> p / d < 2^(e + 1)\<close>.\<close>

definition binade :: "nat \<Rightarrow> nat \<Rightarrow> int" where
  "binade p d =
     (let e0 = int (bitLength p) - int (bitLength d)
      in if d * 2 ^ nat e0 \<le> p * 2 ^ nat (- e0) then e0 else e0 - 1)"

text \<open>Rounding of a positive rational \<open>p / d\<close> to binary64, to nearest, ties to even: the
  unit of the last place is \<open>2^(e - 52)\<close> in the binade \<open>e\<close>, and \<open>2^(- 1074)\<close> below the
  normal range; \<open>None\<close> is the overflow.\<close>

definition roundPositive :: "nat \<Rightarrow> nat \<Rightarrow> rat option" where
  "roundPositive p d =
     (let e = max (binade p d) (- 1022) - 52;
          m = roundHalfEven (p * 2 ^ nat (- e)) (d * 2 ^ nat e);
          r = of_nat (m * 2 ^ nat e) / of_nat (2 ^ nat (- e))
      in if 2 ^ 1024 \<le> r then None else Some r)"

definition rnd :: "rat \<Rightarrow> number" where
  "rnd q =
     (if q = 0 then Fin 0
      else case quotient_of \<bar>q\<bar> of (p, d) \<Rightarrow>
        (case roundPositive (nat p) (nat d) of
           None \<Rightarrow> (if 0 < q then PInf else NInf)
         | Some r \<Rightarrow> Fin (if 0 < q then r else - r)))"

text \<open>The operators \<open>-x\<close>, \<open>Math.abs\<close>, \<open>+\<close>, \<open>-\<close>, \<open>*\<close>, \<open>/\<close> and \<open>%\<close>. The remainder
  takes the sign of the dividend and is exact.\<close>

fun number_neg :: "number \<Rightarrow> number" where
  "number_neg (Fin a) = Fin (- a)"
| "number_neg PInf = NInf"
| "number_neg NInf = PInf"
| "number_neg NaN = NaN"

fun number_abs :: "number \<Rightarrow> number" where
  "number_abs (Fin a) = Fin \<bar>a\<bar>"
| "number_abs PInf = PInf"
| "number_abs NInf = PInf"
| "number_abs NaN = NaN"

fun isNegative :: "number \<Rightarrow> bool" where
  "isNegative (Fin a) = (a < 0)"
| "isNegative NInf = True"
| "isNegative x = False"

fun number_add :: "number \<Rightarrow> number \<Rightarrow> number" where
  "number_add (Fin a) (Fin b) = rnd (a + b)"
| "number_add NaN y = NaN"
| "number_add x NaN = NaN"
| "number_add PInf NInf = NaN"
| "number_add NInf PInf = NaN"
| "number_add (Fin a) y = y"
| "number_add x y = x"

definition number_sub :: "number \<Rightarrow> number \<Rightarrow> number" where
  "number_sub x y = number_add x (number_neg y)"

fun number_mul :: "number \<Rightarrow> number \<Rightarrow> number" where
  "number_mul (Fin a) (Fin b) = rnd (a * b)"
| "number_mul NaN y = NaN"
| "number_mul x NaN = NaN"
| "number_mul (Fin a) y = (if a = 0 then NaN else if (a < 0) \<noteq> isNegative y then NInf else PInf)"
| "number_mul x (Fin b) = (if b = 0 then NaN else if isNegative x \<noteq> (b < 0) then NInf else PInf)"
| "number_mul x y = (if isNegative x \<noteq> isNegative y then NInf else PInf)"

fun number_div :: "number \<Rightarrow> number \<Rightarrow> number" where
  "number_div (Fin a) (Fin b) =
     (if b = 0 then (if a = 0 then NaN else if a < 0 then NInf else PInf) else rnd (a / b))"
| "number_div NaN y = NaN"
| "number_div x NaN = NaN"
| "number_div (Fin a) y = Fin 0"
| "number_div x (Fin b) = (if isNegative x \<noteq> (b < 0) then NInf else PInf)"
| "number_div x y = NaN"

definition truncation :: "rat \<Rightarrow> int" where
  "truncation x = (if 0 \<le> x then \<lfloor>x\<rfloor> else \<lceil>x\<rceil>)"

fun number_rem :: "number \<Rightarrow> number \<Rightarrow> number" where
  "number_rem (Fin a) (Fin b) = (if b = 0 then NaN else Fin (a - b * of_int (truncation (a / b))))"
| "number_rem (Fin a) PInf = Fin a"
| "number_rem (Fin a) NInf = Fin a"
| "number_rem x y = NaN"

text \<open>The comparisons \<open>===\<close>, \<open><\<close> and \<open><=\<close>; each is false when a side is \<open>NaN\<close>, so
  \<open>b !== 0\<close> is true of \<open>NaN\<close>.\<close>

fun number_eq :: "number \<Rightarrow> number \<Rightarrow> bool" where
  "number_eq (Fin a) (Fin b) = (a = b)"
| "number_eq PInf PInf = True"
| "number_eq NInf NInf = True"
| "number_eq x y = False"

fun number_lt :: "number \<Rightarrow> number \<Rightarrow> bool" where
  "number_lt (Fin a) (Fin b) = (a < b)"
| "number_lt (Fin a) PInf = True"
| "number_lt NInf (Fin b) = True"
| "number_lt NInf PInf = True"
| "number_lt x y = False"

definition number_le :: "number \<Rightarrow> number \<Rightarrow> bool" where
  "number_le x y = (number_lt x y \<or> number_eq x y)"

text \<open>\<open>Math.round\<close>: the nearest integer, a half upwards.\<close>

fun Math_round :: "number \<Rightarrow> number" where
  "Math_round (Fin a) = Fin (of_int \<lfloor>a + 1 / 2\<rfloor>)"
| "Math_round x = x"

text \<open>The class \<open>RobustFraction\<close> on doubles. The private \<open>gcd\<close> recurses until
  \<open>b === 0\<close>; the value \<open>None\<close> of the embedding is the recursion that never gets there,
  which ends a JavaScript call with a \<open>RangeError\<close> when the call stack is used up. (A
  recursion on finite doubles that ends has a depth of a few thousand calls at most.)\<close>

record RobustFraction64 =
  num64 :: number
  den64 :: number

partial_function (option) fraction_gcd64 :: "number \<Rightarrow> number \<Rightarrow> number option" where
  "fraction_gcd64 a b = (if number_eq b (Fin 0) then Some a else fraction_gcd64 b (number_rem a b))"

definition newRobustFraction64 :: "number \<Rightarrow> number \<Rightarrow> exn + RobustFraction64" where
  "newRobustFraction64 numerator denominator =
     (if number_eq denominator (Fin 0) then Inl FractionZeroDenominator
      else
        let numerator' = (if number_lt denominator (Fin 0) then number_neg numerator else numerator);
            denominator' =
              (if number_lt denominator (Fin 0) then number_neg denominator else denominator)
        in case fraction_gcd64 (number_abs numerator') (number_abs denominator') of
             None \<Rightarrow> Inl RangeError
           | Some g \<Rightarrow> Inr \<lparr>num64 = number_div numerator' g, den64 = number_div denominator' g\<rparr>)"

definition add64 :: "RobustFraction64 \<Rightarrow> RobustFraction64 \<Rightarrow> exn + RobustFraction64" where
  "add64 this other =
     newRobustFraction64
       (number_add (number_mul (num64 this) (den64 other)) (number_mul (num64 other) (den64 this)))
       (number_mul (den64 this) (den64 other))"

definition subtract64 :: "RobustFraction64 \<Rightarrow> RobustFraction64 \<Rightarrow> exn + RobustFraction64" where
  "subtract64 this other =
     newRobustFraction64
       (number_sub (number_mul (num64 this) (den64 other)) (number_mul (num64 other) (den64 this)))
       (number_mul (den64 this) (den64 other))"

definition multiply64 :: "RobustFraction64 \<Rightarrow> RobustFraction64 \<Rightarrow> exn + RobustFraction64" where
  "multiply64 this other =
     newRobustFraction64 (number_mul (num64 this) (num64 other))
       (number_mul (den64 this) (den64 other))"

definition divide64 :: "RobustFraction64 \<Rightarrow> RobustFraction64 \<Rightarrow> exn + RobustFraction64" where
  "divide64 this other =
     (if number_eq (num64 other) (Fin 0) then Inl DivisionByZero
      else newRobustFraction64 (number_mul (num64 this) (den64 other))
             (number_mul (den64 this) (num64 other)))"

definition abs64 :: "RobustFraction64 \<Rightarrow> exn + RobustFraction64" where
  "abs64 this = newRobustFraction64 (number_abs (num64 this)) (den64 this)"

definition negate64 :: "RobustFraction64 \<Rightarrow> exn + RobustFraction64" where
  "negate64 this = newRobustFraction64 (number_neg (num64 this)) (den64 this)"

text \<open>The helpers \<open>gcd\<close> and \<open>lcm\<close> on doubles. The loop of \<open>gcdTwo\<close> is
  \<open>while (b !== 0)\<close>; the value \<open>None\<close> is the loop that does not end, and with it the
  call that does not return: no exception is raised, and no \<open>catch\<close> is reached.\<close>

partial_function (option) gcdTwo_loop64 :: "number \<Rightarrow> number \<Rightarrow> number option" where
  "gcdTwo_loop64 a b =
     (if \<not> number_eq b (Fin 0) then gcdTwo_loop64 b (number_rem a b) else Some a)"

definition gcdTwo64 :: "number \<Rightarrow> number \<Rightarrow> number option" where
  "gcdTwo64 a b = gcdTwo_loop64 (number_abs a) (number_abs b)"

text \<open>\<open>reduce\<close> with a callback that may not return.\<close>

fun reduce64 :: "('a \<Rightarrow> 'a \<Rightarrow> 'a option) \<Rightarrow> 'a \<Rightarrow> 'a list \<Rightarrow> 'a option" where
  "reduce64 f acc [] = Some acc"
| "reduce64 f acc (x # xs) = (case f acc x of None \<Rightarrow> None | Some acc' \<Rightarrow> reduce64 f acc' xs)"

definition gcd_helper64 :: "number list \<Rightarrow> number option" where
  "gcd_helper64 numbers =
     (if length numbers = 0 then Some (Fin 1)
      else if length numbers = 1 then Some (number_abs (hd numbers))
      else reduce64 (\<lambda>acc curr. gcdTwo64 acc (number_abs curr)) (hd numbers) (tl numbers))"

definition lcmTwo64 :: "number \<Rightarrow> number \<Rightarrow> number option" where
  "lcmTwo64 a b =
     (let product = number_abs (number_mul a b)
      in case gcd_helper64 [a, b] of None \<Rightarrow> None | Some g \<Rightarrow> Some (number_div product g))"

definition lcm_helper64 :: "number list \<Rightarrow> number option" where
  "lcm_helper64 numbers =
     (if length numbers = 0 then Some (Fin 1)
      else if length numbers = 1 then Some (number_abs (hd numbers))
      else reduce64 (\<lambda>acc curr. lcmTwo64 acc (number_abs curr)) (hd numbers) (tl numbers))"

text \<open>\<open>normalizeToPositiveIntegers\<close> on doubles: \<open>None\<close> when the call does not return,
  \<open>Some (Inl e)\<close> when it throws, \<open>Some (Inr coefficients)\<close> when it returns.\<close>

definition normalizeToPositiveIntegers64 ::
  "RobustFraction64 list \<Rightarrow> (exn + number list) option" where
  "normalizeToPositiveIntegers64 fractionSolution =
     (let allNegative = list_all (\<lambda>f. number_le (num64 f) (Fin 0)) fractionSolution
      in case (if allNegative then mapE negate64 fractionSolution else Inr fractionSolution) of
           Inl e \<Rightarrow> Some (Inl e)
         | Inr fs \<Rightarrow>
             (case reduce64 (\<lambda>a b. lcm_helper64 [a, b]) (Fin 1) (map den64 fs) of
                None \<Rightarrow> None
              | Some lcmValue \<Rightarrow>
                  (let integers =
                         map (\<lambda>f. number_div (number_mul (num64 f) lcmValue) (den64 f)) fs;
                       positiveIntegers =
                         filter (\<lambda>x. number_lt (Fin 0) x) (map number_abs integers)
                   in case (if length positiveIntegers > 0 then gcd_helper64 positiveIntegers
                            else Some (Fin 1)) of
                        None \<Rightarrow> None
                      | Some gcdValue \<Rightarrow>
                          Some (Inr (map (\<lambda>x. Math_round (number_div (number_abs x) gcdValue))
                                       integers)))))"

subsection \<open>Conservation sums\<close>

text \<open>The sum of a conservation constraint: over the compounds of one side, the
  coefficient times the atom count of the element in the parsed formula.\<close>

definition elementTotal :: "(jstring \<Rightarrow> bool) \<Rightarrow> EquationCompound list \<Rightarrow> jstring \<Rightarrow> int" where
  "elementTotal isValidElement compounds element =
     (\<Sum>c\<leftarrow>compounds. coefficient c * getElementCount isValidElement (formula c) element)"

subsection \<open>Notions of the proofs\<close>

text \<open>These three are not in the source; the proof about \<open>normalizeFormula\<close> speaks of
  them.\<close>

text \<open>The characters that are left after the white space is gone.\<close>

definition squeeze :: "jstring \<Rightarrow> jstring" where
  "squeeze s = filter (\<lambda>c. \<not> isSpace c) s"

fun startsWithNumber :: "Token list \<Rightarrow> bool" where
  "startsWithNumber (Number d # ts) = True"
| "startsWithNumber ts = False"

fun noAdjacentNumbers :: "Token list \<Rightarrow> bool" where
  "noAdjacentNumbers [] = True"
| "noAdjacentNumbers (Number d # ts) = (\<not> startsWithNumber ts \<and> noAdjacentNumbers ts)"
| "noAdjacentNumbers (t # ts) = noAdjacentNumbers ts"

section \<open>Properties\<close>

subsection \<open>Rounding of integers to doubles\<close>

text \<open>An integer with at most 53 significant bits below \<open>2^1024\<close> is a double, and an
  integer from \<open>2^1024\<close> on rounds to \<open>Infinity\<close>.\<close>

lemma bitLength_upper: "n < 2 ^ bitLength n"
proof (induction n rule: bitLength.induct)
  case (1 n)
  show ?case
  proof (cases "n = 0")
    case True
    then show ?thesis by simp
  next
    case False
    with 1 have "n div 2 < 2 ^ bitLength (n div 2)" by simp
    then have "n < 2 * 2 ^ bitLength (n div 2)" by linarith
    with False show ?thesis by (subst bitLength.simps) simp
  qed
qed

lemma bitLength_lower: "0 < n \<Longrightarrow> 2 ^ bitLength n \<le> 2 * n"
proof (induction n rule: bitLength.induct)
  case (1 n)
  then have n: "n \<noteq> 0" by simp
  show ?case
  proof (cases "n div 2 = 0")
    case True
    then have "bitLength (n div 2) = 0" by (simp add: bitLength.simps)
    with n show ?thesis by (subst bitLength.simps) simp
  next
    case False
    with 1 n have "2 ^ bitLength (n div 2) \<le> 2 * (n div 2)" by simp
    then have "2 ^ bitLength (n div 2) \<le> n" by linarith
    with n show ?thesis by (subst bitLength.simps) simp
  qed
qed

lemma bitLength_pos: "0 < n \<Longrightarrow> 0 < bitLength n"
  by (subst bitLength.simps) simp

lemma bitLength_one: "bitLength (Suc 0) = Suc 0"
  by (simp add: bitLength.simps)

lemma bitLength_pred: "0 < n \<Longrightarrow> 2 ^ (bitLength n - 1) \<le> n"
proof -
  assume n: "0 < n"
  then obtain b where b: "bitLength n = Suc b"
    using bitLength_pos [of n] by (cases "bitLength n") auto
  with bitLength_lower [OF n] show ?thesis by simp
qed

lemma binade_int: "0 < n \<Longrightarrow> binade n (Suc 0) = int (bitLength n) - 1"
  using bitLength_pred [of n] bitLength_pos [of n]
  by (simp add: binade_def bitLength_one nat_diff_distrib')

lemma roundHalfEven_dvd: "0 < b \<Longrightarrow> b dvd a \<Longrightarrow> roundHalfEven a b = a div b"
  by (auto simp: roundHalfEven_def Let_def)

lemma roundHalfEven_ge: "a div b \<le> roundHalfEven a b"
  by (simp add: roundHalfEven_def Let_def)

lemma roundPositive_exact:
  assumes n: "0 < n" and dvd: "2 ^ k dvd n" and small: "n div 2 ^ k < 2 ^ 53"
    and range: "n < 2 ^ 1024"
  shows "roundPositive n (Suc 0) = Some (of_nat n)"
proof -
  define b where "b = bitLength n"
  have e: "max (binade n (Suc 0)) (- 1022) - 52 = int b - 53"
    using n bitLength_pos [of n] by (simp add: binade_int b_def)
  have r: "rat_of_nat n < 2 ^ 1024"
  proof -
    from range have "rat_of_nat n < rat_of_nat (2 ^ 1024)" by (simp only: of_nat_less_iff)
    then show ?thesis by simp
  qed
  show ?thesis
  proof (cases "b \<le> 53")
    case True
    then have "nat (int b - 53) = 0" and "nat (- (int b - 53)) = 53 - b" by simp_all
    with r show ?thesis
      by (simp add: roundPositive_def e roundHalfEven_dvd)
  next
    case False
    then have t: "nat (int b - 53) = b - 53" and z: "nat (53 - int b) = 0" by simp_all
    from dvd obtain c where c: "n = 2 ^ k * c" by (auto elim: dvdE)
    with small have "c < 2 ^ 53" by simp
    with c have "n < 2 ^ (k + 53)" by (simp add: power_add)
    moreover have "2 ^ (b - 1) \<le> n" using bitLength_pred [OF n] by (simp add: b_def)
    ultimately have "(2::nat) ^ (b - 1) < 2 ^ (k + 53)" by linarith
    then have "b - 1 < k + 53" by (simp only: power_strict_increasing_iff) 
    with False have "b - 53 \<le> k" by simp
    then have "(2::nat) ^ (b - 53) dvd 2 ^ k" by (rule le_imp_power_dvd)
    then have d: "(2::nat) ^ (b - 53) dvd n" using dvd by (rule dvd_trans)
    then have "n div 2 ^ (b - 53) * 2 ^ (b - 53) = n" by simp
    then have "rat_of_nat (n div 2 ^ (b - 53) * 2 ^ (b - 53)) = rat_of_nat n" by (simp only:)
    then have "rat_of_nat (n div 2 ^ (b - 53)) * 2 ^ (b - 53) = rat_of_nat n" by simp
    with r d show ?thesis
      by (simp add: roundPositive_def e t z roundHalfEven_dvd)
  qed
qed

lemma roundPositive_overflow:
  assumes "2 ^ 1024 \<le> n"
  shows "roundPositive n (Suc 0) = None"
proof -
  define b where "b = bitLength n"
  from assms have n: "0 < n" by (simp add: less_le_trans [of 0 "2 ^ 1024"])
  have e: "max (binade n (Suc 0)) (- 1022) - 52 = int b - 53"
    using n bitLength_pos [of n] by (simp add: binade_int b_def)
  have "(2::nat) ^ 1024 < 2 ^ b"
    using assms bitLength_upper [of n] by (simp add: b_def)
  then have b: "1024 < b" by (simp only: power_strict_increasing_iff)
  then have t: "nat (int b - 53) = b - 53" and z: "nat (53 - int b) = 0" by simp_all
  define m where "m = roundHalfEven n (2 ^ (b - 53))"
  have "2 ^ (b - 1) \<le> n" using bitLength_pred [OF n] by (simp add: b_def)
  then have "2 ^ (b - 1) div 2 ^ (b - 53) \<le> n div 2 ^ (b - 53)" by (rule div_le_mono)
  moreover from b have "(2::nat) ^ (b - 1) div 2 ^ (b - 53) = 2 ^ 52"
    by (simp add: power_diff [symmetric])
  ultimately have "2 ^ 52 \<le> m"
    using roundHalfEven_ge [of n "2 ^ (b - 53)"] by (simp add: m_def)
  then have "2 ^ 52 * 2 ^ (b - 53) \<le> m * 2 ^ (b - 53)" by simp
  moreover have "(2::nat) ^ 52 * 2 ^ (b - 53) = 2 ^ (b - 1)"
  proof -
    from b have eq: "b - 1 = 52 + (b - 53)" by simp
    show ?thesis unfolding eq by (rule power_add [symmetric])
  qed
  moreover from b have "(2::nat) ^ 1024 \<le> 2 ^ (b - 1)"
    by (intro power_increasing) simp_all
  ultimately have "2 ^ 1024 \<le> m * 2 ^ (b - 53)" by linarith
  then have "rat_of_nat (2 ^ 1024) \<le> rat_of_nat (m * 2 ^ (b - 53))"
    by (simp only: of_nat_le_iff)
  then show ?thesis
    by (simp add: roundPositive_def e t z m_def)
qed

lemma rnd_of_nat:
  "0 < n \<Longrightarrow> rnd (of_nat n)
     = (case roundPositive n (Suc 0) of None \<Rightarrow> PInf | Some r \<Rightarrow> Fin r)"
  by (simp add: rnd_def split: option.splits)

lemma rnd_neg: "rnd (- q) = number_neg (rnd q)"
  by (cases "q = 0"; cases "0 < q")
     (auto simp: rnd_def split: prod.splits option.splits)

lemma rnd_exact:
  "0 < n \<Longrightarrow> n mod 2 ^ k = 0 \<Longrightarrow> n div 2 ^ k < 2 ^ 53 \<Longrightarrow> n < 2 ^ 1024
   \<Longrightarrow> rnd (of_nat n) = Fin (of_nat n)"
  by (simp add: rnd_of_nat roundPositive_exact [of n k] mod_eq_0_iff_dvd)

lemma rnd_overflow: "2 ^ 1024 \<le> n \<Longrightarrow> rnd (of_nat n) = PInf"
  using less_le_trans [of 0 "2 ^ 1024" n]
  by (simp add: rnd_of_nat roundPositive_overflow)

lemma rnd_numeral_exact:
  "(numeral w :: nat) mod 2 ^ k = 0 \<Longrightarrow> (numeral w :: nat) div 2 ^ k < 2 ^ 53
   \<Longrightarrow> (numeral w :: nat) < 2 ^ 1024 \<Longrightarrow> rnd (numeral w) = Fin (numeral w)"
  using rnd_exact [of "numeral w" k] by simp

lemma rnd_numeral_overflow: "2 ^ 1024 \<le> (numeral w :: nat) \<Longrightarrow> rnd (numeral w) = PInf"
  using rnd_overflow [of "numeral w"] by simp

lemma rnd_one: "rnd 1 = Fin 1"
  using rnd_exact [of 1 0] by simp

lemma rnd_zero: "rnd 0 = Fin 0"
  by (simp add: rnd_def)

lemma truncation_numeral:
  "truncation (numeral a / numeral b) = numeral a div numeral b"
  "truncation (1 / numeral b) = 1 div numeral b"
  "truncation (numeral a) = numeral a"
  "truncation 1 = 1"
  "truncation 0 = 0"
  using floor_divide_of_int_eq [of "numeral a" "numeral b", where ?'a = rat]
    floor_divide_of_int_eq [of 1 "numeral b", where ?'a = rat]
  by (simp_all add: truncation_def)

lemma rnd_pow2: "k < 1024 \<Longrightarrow> rnd (2 ^ k) = Fin (2 ^ k)"
proof -
  assume "k < 1024"
  then have "(2::nat) ^ k < 2 ^ 1024" by (intro power_strict_increasing) simp_all
  then show ?thesis using rnd_exact [of "2 ^ k" k] by simp
qed

lemma rnd_pow2_overflow: "1024 \<le> k \<Longrightarrow> rnd (2 ^ k) = PInf"
proof -
  assume "1024 \<le> k"
  then have "(2::nat) ^ 1024 \<le> 2 ^ k" by (intro power_increasing) simp_all
  then show ?thesis using rnd_overflow [of "2 ^ k"] by simp
qed

lemma truncation_pow2_lt: "a < b \<Longrightarrow> truncation (2 ^ a / 2 ^ b) = 0"
proof -
  assume "a < b"
  then have "(2::rat) ^ a < 2 ^ b" by (intro power_strict_increasing) simp_all
  then have "(2::rat) ^ a / 2 ^ b < 1" by simp
  moreover have "0 \<le> (2::rat) ^ a / 2 ^ b" by simp
  ultimately show ?thesis by (simp add: truncation_def floor_eq_iff)
qed

lemma truncation_pow2_ge: "b \<le> a \<Longrightarrow> truncation (2 ^ a / 2 ^ b) = 2 ^ (a - b)"
proof -
  assume "b \<le> a"
  then have "(2::rat) ^ a = 2 ^ (a - b) * 2 ^ b" by (simp add: power_add [symmetric])
  then have "(2::rat) ^ a / 2 ^ b = 2 ^ (a - b)" by simp
  also have "\<dots> = of_int (2 ^ (a - b))" by simp
  finally have "(2::rat) ^ a / 2 ^ b = of_int (2 ^ (a - b))" .
  then show ?thesis by (simp add: truncation_def del: of_int_power)
qed

lemma number_rem_pow2_lt: "a < b \<Longrightarrow> number_rem (Fin (2 ^ a)) (Fin (2 ^ b)) = Fin (2 ^ a)"
  by (simp add: truncation_pow2_lt)

lemma number_rem_pow2_ge: "b \<le> a \<Longrightarrow> number_rem (Fin (2 ^ a)) (Fin (2 ^ b)) = Fin 0"
  by (simp add: truncation_pow2_ge power_add [symmetric])

lemmas number_defs = number_sub_def number_le_def truncation_numeral rnd_neg rnd_one rnd_zero
  rnd_numeral_overflow

subsection \<open>RobustFraction when a product overflows\<close>

text \<open>
  Claim C6 (every RobustFraction handed out by the constructor or by one of \<open>add\<close>,
  \<open>subtract\<close>, \<open>multiply\<close>, \<open>divide\<close>, \<open>abs\<close>, \<open>negate\<close> has a denominator greater
  than 0 and is in lowest terms) fails when a product inside an operation overflows. The
  constructor hands out \<open>-1/2^513\<close>, in lowest terms. Subtracting this fraction from itself
  multiplies the two denominators; \<open>2^1026\<close> is \<open>Infinity\<close> on doubles. The constructor is
  called with \<open>(0, Infinity)\<close>, which is not the refused denominator 0; its gcd returns
  \<open>Infinity\<close>, and the fraction handed out has the numerator \<open>0 / Infinity = 0\<close> and the
  denominator \<open>Infinity / Infinity = NaN\<close>, which is not greater than 0.
\<close>

theorem overflow_gives_NaN_denominator:
  "newRobustFraction64 (Fin (- 1)) (Fin (2 ^ 513))
     = Inr \<lparr>num64 = Fin (- 1), den64 = Fin (2 ^ 513)\<rparr>
   \<and> subtract64 \<lparr>num64 = Fin (- 1), den64 = Fin (2 ^ 513)\<rparr>
         \<lparr>num64 = Fin (- 1), den64 = Fin (2 ^ 513)\<rparr>
     = Inr \<lparr>num64 = Fin 0, den64 = NaN\<rparr>
   \<and> \<not> number_lt (Fin 0) (den64 \<lparr>num64 = Fin 0, den64 = NaN\<rparr>)"
  by (simp add: newRobustFraction64_def subtract64_def fraction_gcd64.simps number_defs
      rnd_numeral_exact [where k = 513])

subsection \<open>Trial and error on a balanced input, overdetermined systems\<close>

lemma foldl_add_sum_list:
  "foldl (\<lambda>total x. total + g x) (a::int) xs = a + sum_list (map g xs)"
  by (induction xs arbitrary: a) simp_all

lemma countElementInSide_sum:
  "countElementInSide v compounds e =
     (\<Sum>c\<leftarrow>compounds. getElementCount v (formula c) e * coefficient c)"
proof -
  have step: "(\<lambda>totalCount compound.
              let parsed = parseChemicalFormula v (formula compound) in
              if ParsedFormula.isValid parsed then
                (case find (\<lambda>el. symbol el = e) (ParsedFormula.elements parsed) of
                   Some elementData \<Rightarrow> totalCount + count elementData * coefficient compound
                 | None \<Rightarrow> totalCount)
              else totalCount)
     = (\<lambda>totalCount compound. totalCount + getElementCount v (formula compound) e * coefficient compound)"
    by (intro ext) (simp add: getElementCount_def Let_def split: option.split)
  show ?thesis
    unfolding countElementInSide_def step by (simp add: foldl_add_sum_list)
qed

lemma withCoefficients_ones:
  "withCoefficients cs (replicate (length cs) k) = map (\<lambda>c. c\<lparr>coefficient := k\<rparr>) cs"
  by (induction cs) (simp_all add: withCoefficients_def)

lemma countElementInSide_ones:
  "countElementInSide v (withCoefficients cs (replicate (length cs) 1)) e =
     (\<Sum>c\<leftarrow>cs. getElementCount v (formula c) e)"
  by (simp add: countElementInSide_sum withCoefficients_ones o_def)

text \<open>
  Claim C9. When every element has the same number of atoms on both sides with every
  coefficient taken to be 1, \<open>balanceByTrialAndError\<close> returns a valid result whose
  balanced compounds are the compounds of the input, unchanged, with the coefficients the
  input carries, whatever they are.
\<close>

theorem already_balanced_returned_unchanged:
  assumes "\<forall>e. (\<Sum>c\<leftarrow>ChemicalEquation.reactants eqn. getElementCount v (formula c) e)
             = (\<Sum>c\<leftarrow>ChemicalEquation.products eqn. getElementCount v (formula c) e)"
  shows "balanceByTrialAndError v eqn maxIterations =
           \<lparr>originalEquation = eqn,
              balancedReactants = ChemicalEquation.reactants eqn,
              balancedProducts = ChemicalEquation.products eqn,
              method = Trial_and_error, isValid = True, error = None\<rparr>"
proof -
  have "checkBalance v (ChemicalEquation.reactants eqn) (ChemicalEquation.products eqn)
          (replicate (length (ChemicalEquation.reactants eqn)) 1)
          (replicate (length (ChemicalEquation.products eqn)) 1) els" for els
    using assms by (simp add: checkBalance_def countElementInSide_ones list_all_iff)
  then show ?thesis
    by (simp add: balanceByTrialAndError_def)
qed

text \<open>
  Claim C7. When the elimination finds as many pivot columns as the equation has compounds,
  \<open>balanceByAlgebraicMethodRobust\<close> returns the invalid result with the
  overdetermined-system error. The null-space extraction is not consulted: nothing is
  assumed of \<open>findNullSpace\<close>, which comes after this return in \<open>algebraicAttempt\<close>.
\<close>

theorem overdetermined_system_fails:
  assumes "buildElementMatrix v eqn = Inr (m, elems, compounds)"
    and "gaussianEliminationRobust m = Inr (reducedMatrix, rank, pivotCols)"
    and "rank = length (ChemicalEquation.reactants eqn @ ChemicalEquation.products eqn)"
  shows "balanceByAlgebraicMethodRobust v eqn =
           \<lparr>originalEquation = eqn,
              balancedReactants = ChemicalEquation.reactants eqn,
              balancedProducts = ChemicalEquation.products eqn,
              method = Algebraic, isValid = False, error = Some OVERDETERMINED\<rparr>"
proof -
  from assms(1) have "compounds =
      map formula (ChemicalEquation.reactants eqn @ ChemicalEquation.products eqn)"
    by (auto simp: buildElementMatrix_def bindE_def Let_def split: sum.splits prod.splits)
  with assms(3) have "rank = length compounds" by simp
  with assms(1,2) show ?thesis
    by (simp add: balanceByAlgebraicMethodRobust_def algebraicAttempt_def bindE_def
        createErrorResult_def)
qed

subsection \<open>The algebraic balancer reads formulas only\<close>

lemma collectElements_formulas:
  "map formula cs1 = map formula cs2
   \<Longrightarrow> collectElements v cs1 s d = collectElements v cs2 s d"
proof (induction cs1 arbitrary: cs2 s d)
  case Nil
  then show ?case by simp
next
  case (Cons c cs1)
  then obtain c' cs2' where cs2: "cs2 = c' # cs2'" and f: "formula c = formula c'"
    and r: "map formula cs1 = map formula cs2'"
    by (cases cs2) auto
  from Cons.IH [OF r] show ?case by (simp add: cs2 f Let_def)
qed

lemma buildElementMatrix_formulas:
  assumes "map formula (ChemicalEquation.reactants eqn1) = map formula (ChemicalEquation.reactants eqn2)"
    and "map formula (ChemicalEquation.products eqn1) = map formula (ChemicalEquation.products eqn2)"
  shows "buildElementMatrix v eqn1 = buildElementMatrix v eqn2"
proof -
  from assms have all: "map formula (ChemicalEquation.reactants eqn1 @ ChemicalEquation.products eqn1)
      = map formula (ChemicalEquation.reactants eqn2 @ ChemicalEquation.products eqn2)"
    by simp
  from assms(1) have len: "length (ChemicalEquation.reactants eqn1) = length (ChemicalEquation.reactants eqn2)"
    by (rule map_eq_imp_length_eq)
  show ?thesis
    unfolding buildElementMatrix_def Let_def
    by (simp only: collectElements_formulas [OF all] all len)
qed

lemma withCoefficients_formulas:
  "map formula cs1 = map formula cs2 \<Longrightarrow> withCoefficients cs1 ks = withCoefficients cs2 ks"
proof (induction cs1 arbitrary: cs2 ks)
  case Nil
  then show ?case by (simp add: withCoefficients_def)
next
  case (Cons c cs1)
  then obtain c' cs2' where cs2: "cs2 = c' # cs2'" and f: "formula c = formula c'"
    and r: "map formula cs1 = map formula cs2'"
    by (cases cs2) auto
  from f have upd: "c\<lparr>coefficient := k\<rparr> = c'\<lparr>coefficient := k\<rparr>" for k
    by (cases c, cases c') simp
  from Cons.IH [OF r] show ?case
    by (cases ks) (simp_all add: withCoefficients_def cs2 upd)
qed

lemma weightedCount_formulas_aux:
  "map formula cs1 = map formula cs2 \<Longrightarrow>
   foldl (\<lambda>total (compound, c).
              let parsed = parseChemicalFormula v (formula compound) in
              if ParsedFormula.isValid parsed then
                (case find (\<lambda>el. symbol el = e) (ParsedFormula.elements parsed) of
                   Some elementData \<Rightarrow> total + count elementData * c
                 | None \<Rightarrow> total)
              else total) a (zip cs1 ks)
   = foldl (\<lambda>total (compound, c).
              let parsed = parseChemicalFormula v (formula compound) in
              if ParsedFormula.isValid parsed then
                (case find (\<lambda>el. symbol el = e) (ParsedFormula.elements parsed) of
                   Some elementData \<Rightarrow> total + count elementData * c
                 | None \<Rightarrow> total)
              else total) a (zip cs2 ks)"
proof (induction cs1 arbitrary: cs2 ks a)
  case Nil
  then show ?case by simp
next
  case (Cons c cs1)
  then obtain c' cs2' where cs2: "cs2 = c' # cs2'" and f: "formula c = formula c'"
    and r: "map formula cs1 = map formula cs2'"
    by (cases cs2) auto
  show ?case
  proof (cases ks)
    case Nil
    then show ?thesis by simp
  next
    case (Cons k ks')
    with Cons.IH [OF r] show ?thesis by (simp add: cs2 f)
  qed
qed

lemma weightedCount_formulas:
  "map formula cs1 = map formula cs2
   \<Longrightarrow> weightedCount v e (zip cs1 ks) = weightedCount v e (zip cs2 ks)"
  unfolding weightedCount_def by (rule weightedCount_formulas_aux)

lemma validateSolutionExhaustive_formulas:
  assumes "map formula (ChemicalEquation.reactants eqn1) = map formula (ChemicalEquation.reactants eqn2)"
    and "map formula (ChemicalEquation.products eqn1) = map formula (ChemicalEquation.products eqn2)"
  shows "validateSolutionExhaustive v eqn1 ks els = validateSolutionExhaustive v eqn2 ks els"
proof -
  from assms(1) have len: "length (ChemicalEquation.reactants eqn1) = length (ChemicalEquation.reactants eqn2)"
    by (rule map_eq_imp_length_eq)
  show ?thesis
    unfolding validateSolutionExhaustive_def Let_def
    by (simp only: len weightedCount_formulas [OF assms(1)] weightedCount_formulas [OF assms(2)])
qed

lemma algebraicAttempt_formulas:
  assumes r: "map formula (ChemicalEquation.reactants eqn1) = map formula (ChemicalEquation.reactants eqn2)"
    and p: "map formula (ChemicalEquation.products eqn1) = map formula (ChemicalEquation.products eqn2)"
  shows "(case algebraicAttempt v eqn1 of
            Inl e \<Rightarrow> algebraicAttempt v eqn2 = Inl e
          | Inr r1 \<Rightarrow> (\<exists>r2. algebraicAttempt v eqn2 = Inr r2
               \<and> BalanceResult.isValid r1 = BalanceResult.isValid r2
               \<and> BalanceResult.error r1 = BalanceResult.error r2
               \<and> (BalanceResult.isValid r1 \<longrightarrow>
                    balancedReactants r1 = balancedReactants r2
                    \<and> balancedProducts r1 = balancedProducts r2)))"
proof -
  from r have len: "length (ChemicalEquation.reactants eqn1) = length (ChemicalEquation.reactants eqn2)"
    by (rule map_eq_imp_length_eq)
  show ?thesis
    unfolding algebraicAttempt_def
    by (simp add: buildElementMatrix_formulas [OF r p] validateSolutionExhaustive_formulas [OF r p]
        withCoefficients_formulas [OF r] withCoefficients_formulas [OF p] len
        bindE_def createErrorResult_def Let_def split: sum.split prod.split)
qed

lemma algebraicAttempt_invalid:
  assumes "algebraicAttempt v eqn = Inr r" and "\<not> BalanceResult.isValid r"
  shows "balancedReactants r = ChemicalEquation.reactants eqn
       \<and> balancedProducts r = ChemicalEquation.products eqn"
  using assms unfolding algebraicAttempt_def
  by (auto simp: bindE_def createErrorResult_def Let_def split: sum.splits prod.splits if_splits)

text \<open>
  Claim C10, as the code has it. For two equations with the same formulas in the same
  order, the algebraic balancer returns the same \<open>isValid\<close> flag and the same error, and
  when the result is valid the same balanced compounds, coefficients included. A result
  that is not valid returns the compounds of its own input, with their coefficients.
\<close>

theorem algebraic_ignores_input_coefficients:
  assumes r: "map formula (ChemicalEquation.reactants eqn1) = map formula (ChemicalEquation.reactants eqn2)"
    and p: "map formula (ChemicalEquation.products eqn1) = map formula (ChemicalEquation.products eqn2)"
  shows "BalanceResult.isValid (balanceByAlgebraicMethodRobust v eqn1)
           = BalanceResult.isValid (balanceByAlgebraicMethodRobust v eqn2)
       \<and> BalanceResult.error (balanceByAlgebraicMethodRobust v eqn1)
           = BalanceResult.error (balanceByAlgebraicMethodRobust v eqn2)
       \<and> (if BalanceResult.isValid (balanceByAlgebraicMethodRobust v eqn1)
          then balancedReactants (balanceByAlgebraicMethodRobust v eqn1)
                 = balancedReactants (balanceByAlgebraicMethodRobust v eqn2)
             \<and> balancedProducts (balanceByAlgebraicMethodRobust v eqn1)
                 = balancedProducts (balanceByAlgebraicMethodRobust v eqn2)
          else balancedReactants (balanceByAlgebraicMethodRobust v eqn1) = ChemicalEquation.reactants eqn1
             \<and> balancedProducts (balanceByAlgebraicMethodRobust v eqn1) = ChemicalEquation.products eqn1
             \<and> balancedReactants (balanceByAlgebraicMethodRobust v eqn2) = ChemicalEquation.reactants eqn2
             \<and> balancedProducts (balanceByAlgebraicMethodRobust v eqn2) = ChemicalEquation.products eqn2)"
proof (cases "algebraicAttempt v eqn1")
  case (Inl e)
  with algebraicAttempt_formulas [OF r p, of v] have "algebraicAttempt v eqn2 = Inl e" by simp
  with Inl show ?thesis
    by (simp add: balanceByAlgebraicMethodRobust_def createErrorResult_def)
next
  case (Inr r1)
  with algebraicAttempt_formulas [OF r p, of v] obtain r2 where
    r2: "algebraicAttempt v eqn2 = Inr r2"
    and same: "BalanceResult.isValid r1 = BalanceResult.isValid r2"
      "BalanceResult.error r1 = BalanceResult.error r2"
      "BalanceResult.isValid r1 \<longrightarrow>
         balancedReactants r1 = balancedReactants r2 \<and> balancedProducts r1 = balancedProducts r2"
    by auto
  show ?thesis
  proof (cases "BalanceResult.isValid r1")
    case True
    with Inr r2 same show ?thesis by (simp add: balanceByAlgebraicMethodRobust_def)
  next
    case False
    with same have "\<not> BalanceResult.isValid r2" by simp
    with False Inr r2 same algebraicAttempt_invalid [of v eqn1 r1] algebraicAttempt_invalid [of v eqn2 r2]
    show ?thesis by (simp add: balanceByAlgebraicMethodRobust_def)
  qed
qed

subsection \<open>Evaluation at concrete inputs\<close>

lemma gcdTwo_loop_unfold:
  "gcdTwo_loop a b = (if b = 0 then a else gcdTwo_loop b (a smod b))"
  by (subst gcdTwo_loop.simps) simp

lemmas string_defs = str_def trim_def isSpace_def isUpper_def isLower_def isDigit_def parseInt_def
lemmas parser_defs = parseChemicalFormula_def tokenize_def MAX_FORMULA_LENGTH_def parse_def
  parseGroup_def parseElement_def closeParentheses_def addCount_def MAX_ATOMS_PER_MOLECULE_def
lemmas validator_defs = validateChemicalEquation_def validateChemicalFormula_def
  validateFormulaSyntax_def BASIC_FORMULA_def matchElement_def matchElements.simps
  includes_str_def split.simps ARROW_def ASCII_ARROW_def EQUALS_def PLUS_def stripCoefficient_def
lemmas equation_defs = parseChemicalEquation_def parseCompoundsList_def matchCompound_def
  isLineTerminator_def MAX_COEFFICIENT_def getAllElements_def setAdd_def
lemmas fraction_defs = newRobustFraction_def fraction_gcd.simps signed_modulo_int_def add_def
  subtract_def multiply_def divide_fraction_def isZero_def isOne_def toDecimal_def
  abs_fraction_def negate_def bindE_def
lemmas gcd_defs = gcd_helper_def gcdTwo_def gcdTwo_loop_unfold signed_modulo_int_def
lemmas trial_defs = trialLoop.simps getNextCombination_def simplifyCoefficients_def
  maxCoefficient_def withCoefficients_def

lemma inPeriodicTable_H: "inPeriodicTable [72]"
  by (simp add: inPeriodicTable_def periodicTable_def str_def)

lemma inPeriodicTable_O: "inPeriodicTable [79]"
  by (simp add: inPeriodicTable_def periodicTable_def str_def)

lemma inPeriodicTable_N: "inPeriodicTable [78]"
  by (simp add: inPeriodicTable_def periodicTable_def str_def)

lemma inPeriodicTable_S: "inPeriodicTable [83]"
  by (simp add: inPeriodicTable_def periodicTable_def str_def)

lemma parse_H2:
  "v [72] \<Longrightarrow> parseChemicalFormula v [72, 50] =
     \<lparr>ParsedFormula.elements = [\<lparr>symbol = [72], count = 2\<rparr>], formula = [72, 50],
        isValid = True, error = None\<rparr>"
  by (simp add: string_defs parser_defs)

lemma parse_O2:
  "v [79] \<Longrightarrow> parseChemicalFormula v [79, 50] =
     \<lparr>ParsedFormula.elements = [\<lparr>symbol = [79], count = 2\<rparr>], formula = [79, 50],
        isValid = True, error = None\<rparr>"
  by (simp add: string_defs parser_defs)

lemma parse_N2:
  "v [78] \<Longrightarrow> parseChemicalFormula v [78, 50] =
     \<lparr>ParsedFormula.elements = [\<lparr>symbol = [78], count = 2\<rparr>], formula = [78, 50],
        isValid = True, error = None\<rparr>"
  by (simp add: string_defs parser_defs)

lemma parse_H2O:
  "v [72] \<Longrightarrow> v [79] \<Longrightarrow> parseChemicalFormula v [72, 50, 79] =
     \<lparr>ParsedFormula.elements = [\<lparr>symbol = [72], count = 2\<rparr>, \<lparr>symbol = [79], count = 1\<rparr>],
        formula = [72, 50, 79], isValid = True, error = None\<rparr>"
  by (simp add: string_defs parser_defs)

lemma getElementCount_H2O_H: "v [72] \<Longrightarrow> v [79] \<Longrightarrow> getElementCount v [72, 50, 79] [72] = 2"
  by (simp add: getElementCount_def parse_H2O)

subsubsection \<open>The equation \<open>H2 + O2 = H2O\<close>\<close>

lemma parseChemicalEquation_water:
  "v [72] \<Longrightarrow> v [79] \<Longrightarrow> parseChemicalEquation v (str ''H2 + O2 = H2O'') =
     \<lparr>EquationParseResult.reactants =
          [\<lparr>formula = [72, 50], coefficient = 1\<rparr>, \<lparr>formula = [79, 50], coefficient = 1\<rparr>],
        products = [\<lparr>formula = [72, 50, 79], coefficient = 1\<rparr>],
        allElements = [[72], [79]], isValid = True, error = None\<rparr>"
  by (simp add: string_defs parser_defs validator_defs equation_defs)

lemma getAllElements_water:
  "v [72] \<Longrightarrow> v [79] \<Longrightarrow>
   getAllElements v [\<lparr>formula = [72, 50], coefficient = 1\<rparr>, \<lparr>formula = [79, 50], coefficient = 1\<rparr>,
      \<lparr>formula = [72, 50, 79], coefficient = 1\<rparr>] = [[72], [79]]"
  by (simp add: parse_H2 parse_O2 parse_H2O getAllElements_def setAdd_def)

lemma checkBalance_water:
  "v [72] \<Longrightarrow> v [79] \<Longrightarrow>
   checkBalance v [\<lparr>formula = [72, 50], coefficient = 1\<rparr>, \<lparr>formula = [79, 50], coefficient = 1\<rparr>]
     [\<lparr>formula = [72, 50, 79], coefficient = 1\<rparr>] [a, b] [c] [[72], [79]]
   = (2 * a = 2 * c \<and> 2 * b = c)"
  by (simp add: parse_H2 parse_O2 parse_H2O countElementInSide_def withCoefficients_def
      checkBalance_def)

lemma balanceByTrialAndError_water:
  "v [72] \<Longrightarrow> v [79] \<Longrightarrow>
   balanceByTrialAndError v
     \<lparr>ChemicalEquation.reactants =
        [\<lparr>formula = [72, 50], coefficient = 1\<rparr>, \<lparr>formula = [79, 50], coefficient = 1\<rparr>],
      products = [\<lparr>formula = [72, 50, 79], coefficient = 1\<rparr>]\<rparr> 10000 =
     \<lparr>originalEquation =
        \<lparr>ChemicalEquation.reactants =
           [\<lparr>formula = [72, 50], coefficient = 1\<rparr>, \<lparr>formula = [79, 50], coefficient = 1\<rparr>],
         products = [\<lparr>formula = [72, 50, 79], coefficient = 1\<rparr>]\<rparr>,
      balancedReactants =
        [\<lparr>formula = [72, 50], coefficient = 2\<rparr>, \<lparr>formula = [79, 50], coefficient = 1\<rparr>],
      balancedProducts = [\<lparr>formula = [72, 50, 79], coefficient = 2\<rparr>],
      method = Trial_and_error, isValid = True, error = None\<rparr>"
  by (simp add: balanceByTrialAndError_def getAllElements_water checkBalance_water trial_defs
      gcd_defs)

lemma buildElementMatrix_water:
  "v [72] \<Longrightarrow> v [79] \<Longrightarrow>
   buildElementMatrix v
     \<lparr>ChemicalEquation.reactants =
        [\<lparr>formula = [72, 50], coefficient = 1\<rparr>, \<lparr>formula = [79, 50], coefficient = 1\<rparr>],
      products = [\<lparr>formula = [72, 50, 79], coefficient = 1\<rparr>]\<rparr> =
     Inr ([[\<lparr>num = 2, den = 1\<rparr>, \<lparr>num = 0, den = 1\<rparr>, \<lparr>num = - 2, den = 1\<rparr>],
           [\<lparr>num = 0, den = 1\<rparr>, \<lparr>num = 2, den = 1\<rparr>, \<lparr>num = - 1, den = 1\<rparr>]],
          [[72], [79]], [[72, 50], [79, 50], [72, 50, 79]])"
  by (simp add: parse_H2 parse_O2 parse_H2O buildElementMatrix_def setAdd_def countOr0_def
      fraction_defs)

lemma gaussianEliminationRobust_water:
  "gaussianEliminationRobust
     [[\<lparr>num = 2, den = 1\<rparr>, \<lparr>num = 0, den = 1\<rparr>, \<lparr>num = - 2, den = 1\<rparr>],
      [\<lparr>num = 0, den = 1\<rparr>, \<lparr>num = 2, den = 1\<rparr>, \<lparr>num = - 1, den = 1\<rparr>]] =
     Inr ([[\<lparr>num = 1, den = 1\<rparr>, \<lparr>num = 0, den = 1\<rparr>, \<lparr>num = - 1, den = 1\<rparr>],
           [\<lparr>num = 0, den = 1\<rparr>, \<lparr>num = 1, den = 1\<rparr>, \<lparr>num = - 1, den = 2\<rparr>]],
          Suc (Suc 0), [0, Suc 0])"
  by (simp add: gaussianEliminationRobust_def gaussLoop.simps fraction_defs)

lemma findNullSpace_water:
  "findNullSpace
     [[\<lparr>num = 1, den = 1\<rparr>, \<lparr>num = 0, den = 1\<rparr>, \<lparr>num = - 1, den = 1\<rparr>],
      [\<lparr>num = 0, den = 1\<rparr>, \<lparr>num = 1, den = 1\<rparr>, \<lparr>num = - 1, den = 2\<rparr>]]
     (Suc (Suc 0)) [0, Suc 0] (Suc (Suc (Suc 0))) =
     Inr [\<lparr>num = 1, den = 1\<rparr>, \<lparr>num = 1, den = 2\<rparr>, \<lparr>num = 1, den = 1\<rparr>]"
  by (simp add: findNullSpace_def fraction_defs)

lemma normalizeToPositiveIntegers_water:
  "normalizeToPositiveIntegers
     [\<lparr>num = 1, den = 1\<rparr>, \<lparr>num = 1, den = 2\<rparr>, \<lparr>num = 1, den = 1\<rparr>] = Inr [2, 1, 2]"
  by code_simp

lemma validateSolutionExhaustive_water:
  "v [72] \<Longrightarrow> v [79] \<Longrightarrow>
   validateSolutionExhaustive v
     \<lparr>ChemicalEquation.reactants =
        [\<lparr>formula = [72, 50], coefficient = 1\<rparr>, \<lparr>formula = [79, 50], coefficient = 1\<rparr>],
      products = [\<lparr>formula = [72, 50, 79], coefficient = 1\<rparr>]\<rparr> [2, 1, 2] [[72], [79]]"
  by (simp add: parse_H2 parse_O2 parse_H2O validateSolutionExhaustive_def weightedCount_def)

lemma balanceByAlgebraicMethodRobust_water:
  "v [72] \<Longrightarrow> v [79] \<Longrightarrow>
   balanceByAlgebraicMethodRobust v
     \<lparr>ChemicalEquation.reactants =
        [\<lparr>formula = [72, 50], coefficient = 1\<rparr>, \<lparr>formula = [79, 50], coefficient = 1\<rparr>],
      products = [\<lparr>formula = [72, 50, 79], coefficient = 1\<rparr>]\<rparr> =
     \<lparr>originalEquation =
        \<lparr>ChemicalEquation.reactants =
           [\<lparr>formula = [72, 50], coefficient = 1\<rparr>, \<lparr>formula = [79, 50], coefficient = 1\<rparr>],
         products = [\<lparr>formula = [72, 50, 79], coefficient = 1\<rparr>]\<rparr>,
      balancedReactants =
        [\<lparr>formula = [72, 50], coefficient = 2\<rparr>, \<lparr>formula = [79, 50], coefficient = 1\<rparr>],
      balancedProducts = [\<lparr>formula = [72, 50, 79], coefficient = 2\<rparr>],
      method = Algebraic, isValid = True, error = None\<rparr>"
  by (simp add: balanceByAlgebraicMethodRobust_def algebraicAttempt_def bindE_def
      buildElementMatrix_water gaussianEliminationRobust_water findNullSpace_water
      normalizeToPositiveIntegers_water validateSolutionExhaustive_water withCoefficients_def)

text \<open>
  Claim C4. For the equation string \<open>H2 + O2 = H2O\<close> the entry point returns a valid result
  with the coefficients 2, 1, 2, that is \<open>2H2 + O2 \<rightarrow> 2H2O\<close>, under the trial-and-error method
  (also when the method is left out) and under the algebraic method, whenever the element
  lookup knows H and O.
\<close>

theorem water_balanced_by_both_methods:
  assumes "isValidElement (str ''H'')" and "isValidElement (str ''O'')"
  shows "BalanceResult.isValid
           (balanceChemicalEquation isValidElement
              \<lparr>equation = str ''H2 + O2 = H2O'', method = m\<rparr>)
       \<and> balancedReactants
           (balanceChemicalEquation isValidElement
              \<lparr>equation = str ''H2 + O2 = H2O'', method = m\<rparr>)
           = [\<lparr>formula = str ''H2'', coefficient = 2\<rparr>, \<lparr>formula = str ''O2'', coefficient = 1\<rparr>]
       \<and> balancedProducts
           (balanceChemicalEquation isValidElement
              \<lparr>equation = str ''H2 + O2 = H2O'', method = m\<rparr>)
           = [\<lparr>formula = str ''H2O'', coefficient = 2\<rparr>]"
proof -
  from assms have h: "isValidElement [72]" and o: "isValidElement [79]"
    by (simp_all add: str_def)
  have s: "str ''H2'' = [72, 50]" "str ''O2'' = [79, 50]" "str ''H2O'' = [72, 50, 79]"
    by (simp_all add: str_def)
  consider (trial) "m = None \<or> m = Some Trial_and_error" | (algebraic) "m = Some Algebraic"
    by (cases m) (auto intro: BalanceMethod.exhaust)
  then show ?thesis
  proof cases
    case trial
    then show ?thesis
      by (auto simp: balanceChemicalEquation_def parseChemicalEquation_water [OF h o] s
          DEFAULT_MAX_ITERATIONS_def balanceByTrialAndError_water [OF h o])
  next
    case algebraic
    then show ?thesis
      by (simp add: balanceChemicalEquation_def parseChemicalEquation_water [OF h o] s
          balanceByAlgebraicMethodRobust_water [OF h o])
  qed
qed

theorem water_balanced_by_both_methods_witness:
  "inPeriodicTable (str ''H'') \<and> inPeriodicTable (str ''O'')
   \<and> BalanceResult.isValid
       (balanceChemicalEquation inPeriodicTable
          \<lparr>equation = str ''H2 + O2 = H2O'', method = Some Algebraic\<rparr>)
   \<and> balancedReactants
       (balanceChemicalEquation inPeriodicTable
          \<lparr>equation = str ''H2 + O2 = H2O'', method = Some Algebraic\<rparr>)
       = [\<lparr>formula = str ''H2'', coefficient = 2\<rparr>, \<lparr>formula = str ''O2'', coefficient = 1\<rparr>]
   \<and> balancedProducts
       (balanceChemicalEquation inPeriodicTable
          \<lparr>equation = str ''H2 + O2 = H2O'', method = Some Algebraic\<rparr>)
       = [\<lparr>formula = str ''H2O'', coefficient = 2\<rparr>]"
proof -
  have h: "inPeriodicTable (str ''H'')" and o: "inPeriodicTable (str ''O'')"
    by (simp_all add: str_def inPeriodicTable_H inPeriodicTable_O)
  from water_balanced_by_both_methods [OF h o, of "Some Algebraic"] h o show ?thesis
    by simp
qed

subsubsection \<open>The equation \<open>H2 = O2\<close>\<close>

lemma buildElementMatrix_H2_O2:
  "v [72] \<Longrightarrow> v [79] \<Longrightarrow>
   buildElementMatrix v
     \<lparr>ChemicalEquation.reactants = [\<lparr>formula = [72, 50], coefficient = k\<rparr>],
      products = [\<lparr>formula = [79, 50], coefficient = l\<rparr>]\<rparr> =
     Inr ([[\<lparr>num = 2, den = 1\<rparr>, \<lparr>num = 0, den = 1\<rparr>],
           [\<lparr>num = 0, den = 1\<rparr>, \<lparr>num = - 2, den = 1\<rparr>]],
          [[72], [79]], [[72, 50], [79, 50]])"
  by (simp add: parse_H2 parse_O2 buildElementMatrix_def setAdd_def countOr0_def fraction_defs)

lemma gaussianEliminationRobust_H2_O2:
  "gaussianEliminationRobust
     [[\<lparr>num = 2, den = 1\<rparr>, \<lparr>num = 0, den = 1\<rparr>],
      [\<lparr>num = 0, den = 1\<rparr>, \<lparr>num = - 2, den = 1\<rparr>]] =
     Inr ([[\<lparr>num = 1, den = 1\<rparr>, \<lparr>num = 0, den = 1\<rparr>],
           [\<lparr>num = 0, den = 1\<rparr>, \<lparr>num = 1, den = 1\<rparr>]],
          Suc (Suc 0), [0, Suc 0])"
  by (simp add: gaussianEliminationRobust_def gaussLoop.simps fraction_defs)

lemma balanceByAlgebraicMethodRobust_H2_O2:
  "v [72] \<Longrightarrow> v [79] \<Longrightarrow>
   balanceByAlgebraicMethodRobust v
     \<lparr>ChemicalEquation.reactants = [\<lparr>formula = [72, 50], coefficient = k\<rparr>],
      products = [\<lparr>formula = [79, 50], coefficient = l\<rparr>]\<rparr> =
     \<lparr>originalEquation =
        \<lparr>ChemicalEquation.reactants = [\<lparr>formula = [72, 50], coefficient = k\<rparr>],
         products = [\<lparr>formula = [79, 50], coefficient = l\<rparr>]\<rparr>,
      balancedReactants = [\<lparr>formula = [72, 50], coefficient = k\<rparr>],
      balancedProducts = [\<lparr>formula = [79, 50], coefficient = l\<rparr>],
      method = Algebraic, isValid = False, error = Some OVERDETERMINED\<rparr>"
  by (simp add: balanceByAlgebraicMethodRobust_def algebraicAttempt_def bindE_def
      buildElementMatrix_H2_O2 gaussianEliminationRobust_H2_O2 createErrorResult_def)

subsubsection \<open>The equation \<open>H2 + O2 + N2 = H2O\<close>\<close>

lemma parseChemicalEquation_with_N2:
  "v [72] \<Longrightarrow> v [78] \<Longrightarrow> v [79] \<Longrightarrow>
   parseChemicalEquation v (str ''H2 + O2 + N2 = H2O'') =
     \<lparr>EquationParseResult.reactants =
          [\<lparr>formula = [72, 50], coefficient = 1\<rparr>, \<lparr>formula = [79, 50], coefficient = 1\<rparr>,
           \<lparr>formula = [78, 50], coefficient = 1\<rparr>],
        products = [\<lparr>formula = [72, 50, 79], coefficient = 1\<rparr>],
        allElements = [[72], [78], [79]], isValid = True, error = None\<rparr>"
  by (simp add: string_defs parser_defs validator_defs equation_defs)

lemma buildElementMatrix_with_N2:
  "v [72] \<Longrightarrow> v [78] \<Longrightarrow> v [79] \<Longrightarrow>
   buildElementMatrix v
     \<lparr>ChemicalEquation.reactants =
        [\<lparr>formula = [72, 50], coefficient = 1\<rparr>, \<lparr>formula = [79, 50], coefficient = 1\<rparr>,
         \<lparr>formula = [78, 50], coefficient = 1\<rparr>],
      products = [\<lparr>formula = [72, 50, 79], coefficient = 1\<rparr>]\<rparr> =
     Inr ([[\<lparr>num = 2, den = 1\<rparr>, \<lparr>num = 0, den = 1\<rparr>, \<lparr>num = 0, den = 1\<rparr>, \<lparr>num = - 2, den = 1\<rparr>],
           [\<lparr>num = 0, den = 1\<rparr>, \<lparr>num = 0, den = 1\<rparr>, \<lparr>num = 2, den = 1\<rparr>, \<lparr>num = 0, den = 1\<rparr>],
           [\<lparr>num = 0, den = 1\<rparr>, \<lparr>num = 2, den = 1\<rparr>, \<lparr>num = 0, den = 1\<rparr>, \<lparr>num = - 1, den = 1\<rparr>]],
          [[72], [78], [79]], [[72, 50], [79, 50], [78, 50], [72, 50, 79]])"
  by (simp add: parse_H2 parse_O2 parse_N2 parse_H2O buildElementMatrix_def setAdd_def
      countOr0_def fraction_defs)

lemma gaussianEliminationRobust_with_N2:
  "gaussianEliminationRobust
     [[\<lparr>num = 2, den = 1\<rparr>, \<lparr>num = 0, den = 1\<rparr>, \<lparr>num = 0, den = 1\<rparr>, \<lparr>num = - 2, den = 1\<rparr>],
      [\<lparr>num = 0, den = 1\<rparr>, \<lparr>num = 0, den = 1\<rparr>, \<lparr>num = 2, den = 1\<rparr>, \<lparr>num = 0, den = 1\<rparr>],
      [\<lparr>num = 0, den = 1\<rparr>, \<lparr>num = 2, den = 1\<rparr>, \<lparr>num = 0, den = 1\<rparr>, \<lparr>num = - 1, den = 1\<rparr>]] =
     Inr ([[\<lparr>num = 1, den = 1\<rparr>, \<lparr>num = 0, den = 1\<rparr>, \<lparr>num = 0, den = 1\<rparr>, \<lparr>num = - 1, den = 1\<rparr>],
           [\<lparr>num = 0, den = 1\<rparr>, \<lparr>num = 1, den = 1\<rparr>, \<lparr>num = 0, den = 1\<rparr>, \<lparr>num = - 1, den = 2\<rparr>],
           [\<lparr>num = 0, den = 1\<rparr>, \<lparr>num = 0, den = 1\<rparr>, \<lparr>num = 1, den = 1\<rparr>, \<lparr>num = 0, den = 1\<rparr>]],
          Suc (Suc (Suc 0)), [0, Suc 0, Suc (Suc 0)])"
  by (simp add: gaussianEliminationRobust_def gaussLoop.simps fraction_defs)

lemma findNullSpace_with_N2:
  "findNullSpace
     [[\<lparr>num = 1, den = 1\<rparr>, \<lparr>num = 0, den = 1\<rparr>, \<lparr>num = 0, den = 1\<rparr>, \<lparr>num = - 1, den = 1\<rparr>],
      [\<lparr>num = 0, den = 1\<rparr>, \<lparr>num = 1, den = 1\<rparr>, \<lparr>num = 0, den = 1\<rparr>, \<lparr>num = - 1, den = 2\<rparr>],
      [\<lparr>num = 0, den = 1\<rparr>, \<lparr>num = 0, den = 1\<rparr>, \<lparr>num = 1, den = 1\<rparr>, \<lparr>num = 0, den = 1\<rparr>]]
     (Suc (Suc (Suc 0))) [0, Suc 0, Suc (Suc 0)] (Suc (Suc (Suc (Suc 0)))) =
     Inr [\<lparr>num = 1, den = 1\<rparr>, \<lparr>num = 1, den = 2\<rparr>, \<lparr>num = 0, den = 1\<rparr>, \<lparr>num = 1, den = 1\<rparr>]"
  by (simp add: findNullSpace_def fraction_defs)

lemma normalizeToPositiveIntegers_with_N2:
  "normalizeToPositiveIntegers
     [\<lparr>num = 1, den = 1\<rparr>, \<lparr>num = 1, den = 2\<rparr>, \<lparr>num = 0, den = 1\<rparr>, \<lparr>num = 1, den = 1\<rparr>]
   = Inr [2, 1, 0, 2]"
  by code_simp

lemma validateSolutionExhaustive_with_N2:
  "v [72] \<Longrightarrow> v [78] \<Longrightarrow> v [79] \<Longrightarrow>
   validateSolutionExhaustive v
     \<lparr>ChemicalEquation.reactants =
        [\<lparr>formula = [72, 50], coefficient = 1\<rparr>, \<lparr>formula = [79, 50], coefficient = 1\<rparr>,
         \<lparr>formula = [78, 50], coefficient = 1\<rparr>],
      products = [\<lparr>formula = [72, 50, 79], coefficient = 1\<rparr>]\<rparr> [2, 1, 0, 2] [[72], [78], [79]]"
  by (simp add: parse_H2 parse_O2 parse_N2 parse_H2O validateSolutionExhaustive_def
      weightedCount_def)

lemma balanceByAlgebraicMethodRobust_with_N2:
  "v [72] \<Longrightarrow> v [78] \<Longrightarrow> v [79] \<Longrightarrow>
   balanceByAlgebraicMethodRobust v
     \<lparr>ChemicalEquation.reactants =
        [\<lparr>formula = [72, 50], coefficient = 1\<rparr>, \<lparr>formula = [79, 50], coefficient = 1\<rparr>,
         \<lparr>formula = [78, 50], coefficient = 1\<rparr>],
      products = [\<lparr>formula = [72, 50, 79], coefficient = 1\<rparr>]\<rparr> =
     \<lparr>originalEquation =
        \<lparr>ChemicalEquation.reactants =
           [\<lparr>formula = [72, 50], coefficient = 1\<rparr>, \<lparr>formula = [79, 50], coefficient = 1\<rparr>,
            \<lparr>formula = [78, 50], coefficient = 1\<rparr>],
         products = [\<lparr>formula = [72, 50, 79], coefficient = 1\<rparr>]\<rparr>,
      balancedReactants =
        [\<lparr>formula = [72, 50], coefficient = 2\<rparr>, \<lparr>formula = [79, 50], coefficient = 1\<rparr>,
         \<lparr>formula = [78, 50], coefficient = 0\<rparr>],
      balancedProducts = [\<lparr>formula = [72, 50, 79], coefficient = 2\<rparr>],
      method = Algebraic, isValid = True, error = None\<rparr>"
  by (simp add: balanceByAlgebraicMethodRobust_def algebraicAttempt_def bindE_def
      buildElementMatrix_with_N2 gaussianEliminationRobust_with_N2 findNullSpace_with_N2
      normalizeToPositiveIntegers_with_N2 validateSolutionExhaustive_with_N2 withCoefficients_def)

subsubsection \<open>The equations \<open>2H2O = H2O\<close> and \<open>2H2O = 2H2O\<close>\<close>

lemma parseChemicalEquation_2H2O_H2O:
  "v [72] \<Longrightarrow> v [79] \<Longrightarrow> parseChemicalEquation v (str ''2H2O = H2O'') =
     \<lparr>EquationParseResult.reactants = [\<lparr>formula = [72, 50, 79], coefficient = 2\<rparr>],
        products = [\<lparr>formula = [72, 50, 79], coefficient = 1\<rparr>],
        allElements = [[72], [79]], isValid = True, error = None\<rparr>"
  by (simp add: string_defs parser_defs validator_defs equation_defs)

lemma parseChemicalEquation_2H2O_2H2O:
  "v [72] \<Longrightarrow> v [79] \<Longrightarrow> parseChemicalEquation v (str ''2H2O = 2H2O'') =
     \<lparr>EquationParseResult.reactants = [\<lparr>formula = [72, 50, 79], coefficient = 2\<rparr>],
        products = [\<lparr>formula = [72, 50, 79], coefficient = 2\<rparr>],
        allElements = [[72], [79]], isValid = True, error = None\<rparr>"
  by (simp add: string_defs parser_defs validator_defs equation_defs)

lemma balanceByTrialAndError_H2O_H2O:
  "v [72] \<Longrightarrow> v [79] \<Longrightarrow>
   balanceByTrialAndError v
     \<lparr>ChemicalEquation.reactants = [\<lparr>formula = [72, 50, 79], coefficient = k\<rparr>],
      products = [\<lparr>formula = [72, 50, 79], coefficient = l\<rparr>]\<rparr> n =
     \<lparr>originalEquation =
        \<lparr>ChemicalEquation.reactants = [\<lparr>formula = [72, 50, 79], coefficient = k\<rparr>],
         products = [\<lparr>formula = [72, 50, 79], coefficient = l\<rparr>]\<rparr>,
      balancedReactants = [\<lparr>formula = [72, 50, 79], coefficient = k\<rparr>],
      balancedProducts = [\<lparr>formula = [72, 50, 79], coefficient = l\<rparr>],
      method = Trial_and_error, isValid = True, error = None\<rparr>"
  by (simp add: balanceByTrialAndError_def parse_H2O getAllElements_def setAdd_def
      countElementInSide_def withCoefficients_def checkBalance_def)

text \<open>
  Claim C1 (conservation of every element in a valid result) fails on the early return of
  the trial-and-error balancer: for \<open>2H2O = H2O\<close> the result is valid and carries the input
  coefficients 2 and 1, which put 4 hydrogen atoms on the left and 2 on the right.
\<close>

theorem early_return_breaks_conservation:
  "BalanceResult.isValid
     (balanceChemicalEquation inPeriodicTable
        \<lparr>equation = str ''2H2O = H2O'', method = Some Trial_and_error\<rparr>)
   \<and> elementTotal inPeriodicTable
       (balancedReactants
          (balanceChemicalEquation inPeriodicTable
             \<lparr>equation = str ''2H2O = H2O'', method = Some Trial_and_error\<rparr>))
       (str ''H'') = 4
   \<and> elementTotal inPeriodicTable
       (balancedProducts
          (balanceChemicalEquation inPeriodicTable
             \<lparr>equation = str ''2H2O = H2O'', method = Some Trial_and_error\<rparr>))
       (str ''H'') = 2"
proof -
  have h: "str ''H'' = [72]" by (simp add: str_def)
  show ?thesis
    by (simp add: balanceChemicalEquation_def
        parseChemicalEquation_2H2O_H2O [OF inPeriodicTable_H inPeriodicTable_O]
        balanceByTrialAndError_H2O_H2O [OF inPeriodicTable_H inPeriodicTable_O]
        elementTotal_def h getElementCount_H2O_H [OF inPeriodicTable_H inPeriodicTable_O])
qed

text \<open>
  Claim C2 (every coefficient of a valid result is at least 1) fails on the algebraic
  balancer: for \<open>H2 + O2 + N2 = H2O\<close> the result is valid with the coefficients 2, 1, 0
  and 2.
\<close>

theorem algebraic_returns_zero_coefficient:
  "BalanceResult.isValid
     (balanceChemicalEquation inPeriodicTable
        \<lparr>equation = str ''H2 + O2 + N2 = H2O'', method = Some Algebraic\<rparr>)
   \<and> map coefficient
       (balancedReactants
          (balanceChemicalEquation inPeriodicTable
             \<lparr>equation = str ''H2 + O2 + N2 = H2O'', method = Some Algebraic\<rparr>))
     = [2, 1, 0]
   \<and> map coefficient
       (balancedProducts
          (balanceChemicalEquation inPeriodicTable
             \<lparr>equation = str ''H2 + O2 + N2 = H2O'', method = Some Algebraic\<rparr>))
     = [2]"
  by (simp add: balanceChemicalEquation_def
      parseChemicalEquation_with_N2 [OF inPeriodicTable_H inPeriodicTable_N inPeriodicTable_O]
      balanceByAlgebraicMethodRobust_with_N2
        [OF inPeriodicTable_H inPeriodicTable_N inPeriodicTable_O])

text \<open>
  Claim C3 (the coefficients of a valid result have greatest common divisor 1) fails on the
  early return of the trial-and-error balancer: for \<open>2H2O = 2H2O\<close> the result is valid with
  the coefficients 2 and 2.
\<close>

theorem early_return_keeps_common_factor:
  "BalanceResult.isValid
     (balanceChemicalEquation inPeriodicTable
        \<lparr>equation = str ''2H2O = 2H2O'', method = Some Trial_and_error\<rparr>)
   \<and> map coefficient
       (balancedReactants
          (balanceChemicalEquation inPeriodicTable
             \<lparr>equation = str ''2H2O = 2H2O'', method = Some Trial_and_error\<rparr>)
        @ balancedProducts
            (balanceChemicalEquation inPeriodicTable
               \<lparr>equation = str ''2H2O = 2H2O'', method = Some Trial_and_error\<rparr>))
     = [2, 2]
   \<and> Gcd (set [2, 2 :: int]) = 2"
  by (simp add: balanceChemicalEquation_def
      parseChemicalEquation_2H2O_2H2O [OF inPeriodicTable_H inPeriodicTable_O]
      balanceByTrialAndError_H2O_H2O [OF inPeriodicTable_H inPeriodicTable_O])

theorem overdetermined_system_fails_witness:
  "buildElementMatrix inPeriodicTable
     \<lparr>ChemicalEquation.reactants = [\<lparr>formula = str ''H2'', coefficient = 1\<rparr>],
      products = [\<lparr>formula = str ''O2'', coefficient = 1\<rparr>]\<rparr>
   = Inr ([[\<lparr>num = 2, den = 1\<rparr>, \<lparr>num = 0, den = 1\<rparr>],
           [\<lparr>num = 0, den = 1\<rparr>, \<lparr>num = - 2, den = 1\<rparr>]],
          [str ''H'', str ''O''], [str ''H2'', str ''O2''])
   \<and> gaussianEliminationRobust
       [[\<lparr>num = 2, den = 1\<rparr>, \<lparr>num = 0, den = 1\<rparr>],
        [\<lparr>num = 0, den = 1\<rparr>, \<lparr>num = - 2, den = 1\<rparr>]]
     = Inr ([[\<lparr>num = 1, den = 1\<rparr>, \<lparr>num = 0, den = 1\<rparr>],
             [\<lparr>num = 0, den = 1\<rparr>, \<lparr>num = 1, den = 1\<rparr>]], 2, [0, 1])
   \<and> balanceByAlgebraicMethodRobust inPeriodicTable
       \<lparr>ChemicalEquation.reactants = [\<lparr>formula = str ''H2'', coefficient = 1\<rparr>],
        products = [\<lparr>formula = str ''O2'', coefficient = 1\<rparr>]\<rparr>
     = \<lparr>originalEquation =
          \<lparr>ChemicalEquation.reactants = [\<lparr>formula = str ''H2'', coefficient = 1\<rparr>],
           products = [\<lparr>formula = str ''O2'', coefficient = 1\<rparr>]\<rparr>,
        balancedReactants = [\<lparr>formula = str ''H2'', coefficient = 1\<rparr>],
        balancedProducts = [\<lparr>formula = str ''O2'', coefficient = 1\<rparr>],
        method = Algebraic, isValid = False, error = Some OVERDETERMINED\<rparr>"
proof -
  let ?e = "\<lparr>ChemicalEquation.reactants = [\<lparr>formula = str ''H2'', coefficient = 1\<rparr>],
      products = [\<lparr>formula = str ''O2'', coefficient = 1\<rparr>]\<rparr>"
  let ?m = "[[\<lparr>num = 2, den = 1\<rparr>, \<lparr>num = 0, den = 1\<rparr>],
           [\<lparr>num = 0, den = 1\<rparr>, \<lparr>num = - 2, den = 1\<rparr>]]"
  let ?r = "[[\<lparr>num = 1, den = 1\<rparr>, \<lparr>num = 0, den = 1\<rparr>],
             [\<lparr>num = 0, den = 1\<rparr>, \<lparr>num = 1, den = 1\<rparr>]]"
  have b: "buildElementMatrix inPeriodicTable ?e =
      Inr (?m, [str ''H'', str ''O''], [str ''H2'', str ''O2''])"
    using buildElementMatrix_H2_O2 [OF inPeriodicTable_H inPeriodicTable_O, of 1 1]
    by (simp add: str_def)
  have g: "gaussianEliminationRobust ?m = Inr (?r, 2, [0, 1])"
    using gaussianEliminationRobust_H2_O2 by simp
  have n: "(2::nat) = length (ChemicalEquation.reactants ?e @ ChemicalEquation.products ?e)"
    by simp
  from overdetermined_system_fails [OF b g n] b g show ?thesis
    by simp
qed

theorem already_balanced_returned_unchanged_witness:
  "(\<forall>e. (\<Sum>c\<leftarrow>[\<lparr>formula = str ''H2O'', coefficient = 2\<rparr>].
            getElementCount inPeriodicTable (formula c) e)
        = (\<Sum>c\<leftarrow>[\<lparr>formula = str ''H2O'', coefficient = 2\<rparr>].
            getElementCount inPeriodicTable (formula c) e))
   \<and> balanceByTrialAndError inPeriodicTable
       \<lparr>ChemicalEquation.reactants = [\<lparr>formula = str ''H2O'', coefficient = 2\<rparr>],
        products = [\<lparr>formula = str ''H2O'', coefficient = 2\<rparr>]\<rparr> 10000
     = \<lparr>originalEquation =
          \<lparr>ChemicalEquation.reactants = [\<lparr>formula = str ''H2O'', coefficient = 2\<rparr>],
           products = [\<lparr>formula = str ''H2O'', coefficient = 2\<rparr>]\<rparr>,
        balancedReactants = [\<lparr>formula = str ''H2O'', coefficient = 2\<rparr>],
        balancedProducts = [\<lparr>formula = str ''H2O'', coefficient = 2\<rparr>],
        method = Trial_and_error, isValid = True, error = None\<rparr>"
  using already_balanced_returned_unchanged
    [where eqn = "\<lparr>ChemicalEquation.reactants = [\<lparr>formula = str ''H2O'', coefficient = 2\<rparr>],
          products = [\<lparr>formula = str ''H2O'', coefficient = 2\<rparr>]\<rparr>"
       and v = inPeriodicTable and maxIterations = 10000]
  by simp

text \<open>Two equations that differ in one input coefficient only, \<open>H2 = O2\<close> and
  \<open>2H2 = O2\<close>, both overdetermined: each failed result carries the coefficients of its own
  input, so the returned coefficient vectors differ.\<close>

theorem algebraic_failure_echoes_input_counterexample:
  "map formula [\<lparr>formula = str ''H2'', coefficient = 1\<rparr>]
     = map formula [\<lparr>formula = str ''H2'', coefficient = 2\<rparr>]
   \<and> map coefficient
       (balancedReactants
          (balanceByAlgebraicMethodRobust inPeriodicTable
             \<lparr>ChemicalEquation.reactants = [\<lparr>formula = str ''H2'', coefficient = 1\<rparr>],
              products = [\<lparr>formula = str ''O2'', coefficient = 1\<rparr>]\<rparr>))
     = [1]
   \<and> map coefficient
       (balancedReactants
          (balanceByAlgebraicMethodRobust inPeriodicTable
             \<lparr>ChemicalEquation.reactants = [\<lparr>formula = str ''H2'', coefficient = 2\<rparr>],
              products = [\<lparr>formula = str ''O2'', coefficient = 1\<rparr>]\<rparr>))
     = [2]"
  using balanceByAlgebraicMethodRobust_H2_O2 [OF inPeriodicTable_H inPeriodicTable_O, of 1 1]
    balanceByAlgebraicMethodRobust_H2_O2 [OF inPeriodicTable_H inPeriodicTable_O, of 2 1]
  by (simp add: str_def)

subsection \<open>Results of the formula parser\<close>

lemma parse_structured:
  "ParseResult.isValid (parse v tokens) \<longleftrightarrow> ParseResult.error (parse v tokens) = None"
  by (simp add: parse_def split: sum.split prod.split)

lemma parseChemicalFormula_structured:
  "ParsedFormula.isValid (parseChemicalFormula v f)
   \<longleftrightarrow> ParsedFormula.error (parseChemicalFormula v f) = None"
  using parse_structured [of v "tokenize (trim f)"]
  by (auto simp: parseChemicalFormula_def Let_def)

lemma parseChemicalFormula_unmatched:
  "parseChemicalFormula inPeriodicTable (str ''H2(SO4'') =
     \<lparr>ParsedFormula.elements = [], formula = str ''H2(SO4'', isValid = False,
        error = Some INVALID_SYNTAX\<rparr>"
  by (simp add: string_defs parser_defs inPeriodicTable_H inPeriodicTable_S inPeriodicTable_O)

subsection \<open>The loop of gcdTwo on a value that is not finite\<close>

text \<open>Once \<open>b\<close> is \<open>NaN\<close> it stays \<open>NaN\<close>, and \<open>b !== 0\<close> stays true.\<close>

lemma number_rem_NaN: "number_rem a NaN = NaN"
  by (cases a) simp_all

lemma gcdTwo_loop64_not_NaN: "gcdTwo_loop64 a b = Some y \<Longrightarrow> b \<noteq> NaN"
proof (rule gcdTwo_loop64.raw_induct [where P = "\<lambda>a b y. b \<noteq> NaN"])
  fix f :: "number \<Rightarrow> number \<Rightarrow> number option" and a b y
  assume IH: "\<And>a b y. f a b = Some y \<Longrightarrow> b \<noteq> NaN"
    and step: "(if \<not> number_eq b (Fin 0) then f b (number_rem a b) else Some a) = Some y"
  show "b \<noteq> NaN"
  proof
    assume "b = NaN"
    with step have "f NaN NaN = Some y" by (simp add: number_rem_NaN)
    with IH show False by blast
  qed
qed

lemma gcdTwo_loop64_NaN: "gcdTwo_loop64 a NaN = None"
  using gcdTwo_loop64_not_NaN [of a NaN] by (cases "gcdTwo_loop64 a NaN") auto

lemma gcdTwo_loop64_unfold:
  "gcdTwo_loop64 a b = (if number_eq b (Fin 0) then Some a else gcdTwo_loop64 b (number_rem a b))"
  by (subst gcdTwo_loop64.simps) simp

lemma gcdTwo64_pow2: "a < b \<Longrightarrow> gcdTwo64 (Fin (2 ^ a)) (Fin (2 ^ b)) = Some (Fin (2 ^ a))"
  unfolding gcdTwo64_def
  apply (subst gcdTwo_loop64_unfold)
  apply (subst gcdTwo_loop64_unfold)
  apply (subst gcdTwo_loop64_unfold)
  apply (simp add: number_rem_pow2_lt number_rem_pow2_ge del: number_rem.simps)
  done

lemma lcm_helper64_pow2:
  "a < b \<Longrightarrow> a + b < 1024 \<Longrightarrow> lcm_helper64 [Fin (2 ^ a), Fin (2 ^ b)] = Some (Fin (2 ^ b))"
  by (simp add: lcm_helper64_def lcmTwo64_def gcd_helper64_def gcdTwo64_pow2
      power_add [symmetric] rnd_pow2 power_diff [symmetric] del: power_numeral)

lemma lcm_helper64_one:
  "0 < b \<Longrightarrow> b < 1024 \<Longrightarrow> lcm_helper64 [Fin 1, Fin (2 ^ b)] = Some (Fin (2 ^ b))"
  using lcm_helper64_pow2 [of 0 b] by simp

lemma lcm_helper64_overflow:
  "a < b \<Longrightarrow> 1024 \<le> a + b \<Longrightarrow> lcm_helper64 [Fin (2 ^ a), Fin (2 ^ b)] = Some PInf"
  by (simp add: lcm_helper64_def lcmTwo64_def gcd_helper64_def gcdTwo64_pow2
      power_add [symmetric] rnd_pow2_overflow del: power_numeral)

lemma gcdTwo64_PInf: "b \<noteq> 0 \<Longrightarrow> gcdTwo64 PInf (Fin b) = None"
  unfolding gcdTwo64_def
  by (subst gcdTwo_loop64_unfold) (simp add: gcdTwo_loop64_NaN)

lemma lcm_helper64_PInf: "b \<noteq> 0 \<Longrightarrow> lcm_helper64 [PInf, Fin b] = None"
  by (simp add: lcm_helper64_def lcmTwo64_def gcd_helper64_def gcdTwo64_PInf)

text \<open>
  Claim C8 (the entry points \<open>parseChemicalFormula\<close> and \<open>balanceChemicalEquation\<close> never
  raise and always return a structured result) holds of the formula parser, which is total
  and returns the syntax error for \<open>H2(SO4\<close> (the lemmas above), and fails in the algebraic
  balancer, which does not return on the equation
  \<open>H512He + Li512Be + \<dots> + La512Ce + Pr512 = He512Li + Be512B + \<dots> + Ce512Pr + H\<close> of 59
  elements and 60 compounds. Its null-space vector is \<open>1/2^9, 1/2^27, \<dots>, 1/2^531\<close> for
  the reactants and \<open>1/2^18, 1/2^36, \<dots>, 1/2^522, 1\<close> for the products. In
  \<open>normalizeToPositiveIntegers\<close> the least common multiple of the denominators is built
  from the left; \<open>lcm([2^513, 2^531])\<close> multiplies the two, which is \<open>Infinity\<close>; the next
  step calls \<open>gcdTwo(Infinity, 2^18)\<close>, where \<open>Infinity % 2^18\<close> is \<open>NaN\<close> and the loop
  \<open>while (b !== 0)\<close> does not end. Nothing is thrown, so the \<open>catch\<close> of
  \<open>balanceByAlgebraicMethodRobust\<close> is not reached and the entry point does not return.
\<close>

theorem normalizeToPositiveIntegers_never_returns:
  "normalizeToPositiveIntegers64
     (map (\<lambda>k. \<lparr>num64 = Fin 1, den64 = Fin (2 ^ k)\<rparr>)
        [9, 27, 45, 63, 81, 99, 117, 135, 153, 171, 189, 207, 225, 243, 261, 279, 297, 315,
         333, 351, 369, 387, 405, 423, 441, 459, 477, 495, 513, 531,
         18, 36, 54, 72, 90, 108, 126, 144, 162, 180, 198, 216, 234, 252, 270, 288, 306, 324,
         342, 360, 378, 396, 414, 432, 450, 468, 486, 504, 522, 0]) = None"
  by (simp add: normalizeToPositiveIntegers64_def number_le_def lcm_helper64_one
      lcm_helper64_pow2 lcm_helper64_overflow lcm_helper64_PInf del: power_numeral)

theorem algebraic_ignores_input_coefficients_witness:
  "map formula [\<lparr>formula = str ''H2'', coefficient = 1\<rparr>, \<lparr>formula = str ''O2'', coefficient = 1\<rparr>]
     = map formula [\<lparr>formula = str ''H2'', coefficient = 3\<rparr>, \<lparr>formula = str ''O2'', coefficient = 5\<rparr>]
   \<and> map formula [\<lparr>formula = str ''H2O'', coefficient = 1\<rparr>]
     = map formula [\<lparr>formula = str ''H2O'', coefficient = 7\<rparr>]
   \<and> BalanceResult.isValid
       (balanceByAlgebraicMethodRobust inPeriodicTable
          \<lparr>ChemicalEquation.reactants =
             [\<lparr>formula = str ''H2'', coefficient = 3\<rparr>, \<lparr>formula = str ''O2'', coefficient = 5\<rparr>],
           products = [\<lparr>formula = str ''H2O'', coefficient = 7\<rparr>]\<rparr>)
   \<and> balancedReactants
       (balanceByAlgebraicMethodRobust inPeriodicTable
          \<lparr>ChemicalEquation.reactants =
             [\<lparr>formula = str ''H2'', coefficient = 3\<rparr>, \<lparr>formula = str ''O2'', coefficient = 5\<rparr>],
           products = [\<lparr>formula = str ''H2O'', coefficient = 7\<rparr>]\<rparr>)
     = [\<lparr>formula = str ''H2'', coefficient = 2\<rparr>, \<lparr>formula = str ''O2'', coefficient = 1\<rparr>]
   \<and> balancedProducts
       (balanceByAlgebraicMethodRobust inPeriodicTable
          \<lparr>ChemicalEquation.reactants =
             [\<lparr>formula = str ''H2'', coefficient = 3\<rparr>, \<lparr>formula = str ''O2'', coefficient = 5\<rparr>],
           products = [\<lparr>formula = str ''H2O'', coefficient = 7\<rparr>]\<rparr>)
     = [\<lparr>formula = str ''H2O'', coefficient = 2\<rparr>]"
proof -
  let ?e1 = "\<lparr>ChemicalEquation.reactants =
        [\<lparr>formula = [72, 50], coefficient = 1\<rparr>, \<lparr>formula = [79, 50], coefficient = 1\<rparr>],
      products = [\<lparr>formula = [72, 50, 79], coefficient = 1\<rparr>]\<rparr>"
  let ?e2 = "\<lparr>ChemicalEquation.reactants =
        [\<lparr>formula = [72, 50], coefficient = 3\<rparr>, \<lparr>formula = [79, 50], coefficient = 5\<rparr>],
      products = [\<lparr>formula = [72, 50, 79], coefficient = 7\<rparr>]\<rparr>"
  have s: "str ''H2'' = [72, 50]" "str ''O2'' = [79, 50]" "str ''H2O'' = [72, 50, 79]"
    by (simp_all add: str_def)
  have r: "map formula (ChemicalEquation.reactants ?e1) = map formula (ChemicalEquation.reactants ?e2)"
    and p: "map formula (ChemicalEquation.products ?e1) = map formula (ChemicalEquation.products ?e2)"
    by simp_all
  from algebraic_ignores_input_coefficients [OF r p, of inPeriodicTable]
    balanceByAlgebraicMethodRobust_water [OF inPeriodicTable_H inPeriodicTable_O]
  show ?thesis
    by (simp add: s)
qed

subsection \<open>Normalising a formula does not change its tokens\<close>

lemma isUpper_not_isSpace: "isUpper c \<Longrightarrow> \<not> isSpace c"
  by (auto simp: isUpper_def isSpace_def)

lemma isLower_not_isSpace: "isLower c \<Longrightarrow> \<not> isSpace c"
  by (auto simp: isLower_def isSpace_def)

lemma isDigit_not_isSpace: "isDigit c \<Longrightarrow> \<not> isSpace c"
  by (auto simp: isDigit_def isSpace_def)

lemma paren_not_isSpace: "\<not> isSpace 40" "\<not> isSpace 41"
  by (simp_all add: isSpace_def)

lemma isUpper_not_isDigit: "isUpper c \<Longrightarrow> \<not> isDigit c"
  by (auto simp: isUpper_def isDigit_def)

lemma isLower_not_isDigit: "isLower c \<Longrightarrow> \<not> isDigit c"
  by (auto simp: isLower_def isDigit_def)

lemma isLower_not_isUpper: "isLower c \<Longrightarrow> \<not> isUpper c"
  by (auto simp: isUpper_def isLower_def)

lemma paren_classes:
  "\<not> isUpper 40" "\<not> isUpper 41" "\<not> isDigit 40" "\<not> isDigit 41" "\<not> isLower 40" "\<not> isLower 41"
  by (simp_all add: isUpper_def isDigit_def isLower_def)

lemma squeeze_simps [simp]:
  "squeeze [] = []"
  "isSpace c \<Longrightarrow> squeeze (c # cs) = squeeze cs"
  "\<not> isSpace c \<Longrightarrow> squeeze (c # cs) = c # squeeze cs"
  by (simp_all add: squeeze_def)

lemma squeeze_digits:
  "squeeze cs = takeWhile isDigit cs @ squeeze (dropWhile isDigit cs)"
  by (induction cs) (auto simp: isDigit_not_isSpace)

text \<open>The first character that is not white space decides the first token.\<close>

lemma scan_first:
  "scan s = Some ts \<Longrightarrow> squeeze s = d # r \<Longrightarrow>
   \<not> isLower d \<and> (isDigit d \<longrightarrow> startsWithNumber ts)"
proof (induction s arbitrary: ts rule: scan.induct)
  case 1
  then show ?case by simp
next
  case (2 c cs)
  show ?case
  proof (cases "isSpace c")
    case True
    then have "\<not> isUpper c" "\<not> isDigit c" "c \<noteq> 40" "c \<noteq> 41"
      using isUpper_not_isSpace isDigit_not_isSpace paren_not_isSpace by auto
    with True "2.prems" "2.IH"(7) [of ts] show ?thesis by simp
  next
    case False
    with "2.prems"(2) have d: "d = c" by simp
    from "2.prems"(1) False have "isUpper c \<or> isDigit c \<or> c = 40 \<or> c = 41"
      by (auto split: if_splits)
    then have nl: "\<not> isLower d"
      using d isLower_not_isUpper isLower_not_isDigit paren_classes by auto
    have "isDigit d \<longrightarrow> startsWithNumber ts"
    proof
      assume "isDigit d"
      with d have dig: "isDigit c" by simp
      then have "\<not> isUpper c" using isUpper_not_isDigit by auto
      with dig "2.prems"(1) show "startsWithNumber ts" by auto
    qed
    with nl show ?thesis by simp
  qed
qed

lemma scan_squeeze:
  "scan s = Some ts \<Longrightarrow> noAdjacentNumbers ts \<Longrightarrow> scan (squeeze s) = Some ts"
proof (induction s arbitrary: ts rule: scan.induct)
  case 1
  then show ?case by simp
next
  case (2 c cs)
  consider (upper) "isUpper c" | (digit) "\<not> isUpper c" "isDigit c"
    | (open_paren) "\<not> isUpper c" "\<not> isDigit c" "c = 40"
    | (close_paren) "\<not> isUpper c" "\<not> isDigit c" "c \<noteq> 40" "c = 41"
    | (space) "\<not> isUpper c" "\<not> isDigit c" "c \<noteq> 40" "c \<noteq> 41" "isSpace c"
    | (other) "\<not> isUpper c" "\<not> isDigit c" "c \<noteq> 40" "c \<noteq> 41" "\<not> isSpace c"
    by blast
  then show ?case
  proof cases
    case upper
    then have ns: "\<not> isSpace c" by (rule isUpper_not_isSpace)
    show ?thesis
    proof (cases cs)
      case Nil
      with upper ns "2.prems" show ?thesis by simp
    next
      case (Cons d ds)
      show ?thesis
      proof (cases "isLower d")
        case True
        then have nsd: "\<not> isSpace d" by (rule isLower_not_isSpace)
        from upper Cons True "2.prems"(1) obtain ts' where
          ts: "ts = Element [c, d] # ts'" and s': "scan ds = Some ts'"
          by auto
        from ts "2.prems"(2) have "noAdjacentNumbers ts'" by simp
        with "2.IH"(2) [OF upper Cons True s'] have "scan (squeeze ds) = Some ts'" .
        with upper ns nsd True Cons ts show ?thesis by simp
      next
        case False
        from upper Cons False "2.prems"(1) obtain ts' where
          ts: "ts = Element [c] # ts'" and s': "scan cs = Some ts'"
          by auto
        from ts "2.prems"(2) have "noAdjacentNumbers ts'" by simp
        with "2.IH"(3) [OF upper Cons False s'] have IH: "scan (squeeze cs) = Some ts'" .
        show ?thesis
        proof (cases "squeeze cs")
          case Nil
          with upper ns ts IH show ?thesis by simp
        next
          case (Cons e es)
          with scan_first [OF s' Cons] have "\<not> isLower e" by simp
          with upper ns ts IH Cons show ?thesis by simp
        qed
      qed
    qed
  next
    case digit
    then have ns: "\<not> isSpace c" using isDigit_not_isSpace by simp
    from digit "2.prems"(1) obtain ts' where
      ts: "ts = Number (c # takeWhile isDigit cs) # ts'"
      and s': "scan (dropWhile isDigit cs) = Some ts'"
      by auto
    from ts "2.prems"(2) have nn: "\<not> startsWithNumber ts'" and na: "noAdjacentNumbers ts'"
      by simp_all
    from "2.IH"(4) [OF digit s' na] have IH: "scan (squeeze (dropWhile isDigit cs)) = Some ts'" .
    have first: "takeWhile isDigit (squeeze cs) = takeWhile isDigit cs
        \<and> dropWhile isDigit (squeeze cs) = squeeze (dropWhile isDigit cs)"
    proof (cases "squeeze (dropWhile isDigit cs)")
      case Nil
      then have "squeeze cs = takeWhile isDigit cs" using squeeze_digits [of cs] by simp
      moreover have "takeWhile isDigit (takeWhile isDigit cs) = takeWhile isDigit cs"
        by simp
      moreover have "dropWhile isDigit (takeWhile isDigit cs) = []"
        by (auto simp: dropWhile_eq_Nil_conv dest: set_takeWhileD)
      ultimately show ?thesis using Nil by simp
    next
      case (Cons e es)
      with scan_first [OF s' Cons] nn have ne: "\<not> isDigit e" by auto
      have sq: "squeeze cs = takeWhile isDigit cs @ e # es"
        using squeeze_digits [of cs] Cons by simp
      have all: "\<forall>x\<in>set (takeWhile isDigit cs). isDigit x"
        by (auto dest: set_takeWhileD)
      from ne all show ?thesis
        by (simp add: sq Cons takeWhile_append2 dropWhile_append2)
    qed
    from digit ns ts IH first show ?thesis by simp
  next
    case open_paren
    with "2.prems" "2.IH"(5) paren_not_isSpace show ?thesis by auto
  next
    case close_paren
    with "2.prems" "2.IH"(6) paren_not_isSpace show ?thesis by auto
  next
    case space
    with "2.prems" "2.IH"(7) show ?thesis by auto
  next
    case other
    with "2.prems" show ?thesis by simp
  qed
qed

lemma startsWithNumber_append:
  "xs \<noteq> [] \<Longrightarrow> startsWithNumber (xs @ ys) = startsWithNumber xs"
  by (cases xs rule: startsWithNumber.cases) simp_all

lemma noAdjacentNumbers_append:
  "noAdjacentNumbers xs \<Longrightarrow> noAdjacentNumbers ys \<Longrightarrow> \<not> startsWithNumber ys
   \<Longrightarrow> noAdjacentNumbers (xs @ ys)"
proof (induction xs rule: noAdjacentNumbers.induct)
  case 1
  then show ?case by simp
next
  case (2 d ts)
  then have "\<not> startsWithNumber (ts @ ys)"
    by (cases "ts = []") (simp_all add: startsWithNumber_append)
  with 2 show ?case by simp
qed simp_all

lemma parseElement_consumes:
  "parseElement v els s ts = Inr (els', ts')
   \<Longrightarrow> (\<exists>d. ts = Number d # ts') \<or> (ts' = ts \<and> \<not> startsWithNumber ts)"
  by (auto simp: parseElement_def Let_def split: if_splits list.splits Token.splits)

lemma closeParentheses_consumes:
  "closeParentheses els g ts = Inr (els', ts')
   \<Longrightarrow> (\<exists>d. ts = CloseParen # Number d # ts')
       \<or> (ts = CloseParen # ts' \<and> \<not> startsWithNumber ts')"
  by (auto simp: closeParentheses_def Let_def split: if_splits list.splits Token.splits)

text \<open>What a successful run of the group loop has consumed holds no two numbers in a row
  and does not begin with a number; the loop stops at the end of the tokens or in front of
  a closing parenthesis.\<close>

lemma parseGroup_loop_consumed:
  "parseGroup_loop v els ts = Inr (els', rest) \<Longrightarrow>
   \<exists>pre. ts = pre @ rest \<and> noAdjacentNumbers pre \<and> \<not> startsWithNumber pre
         \<and> \<not> startsWithNumber rest"
proof (induction v els ts arbitrary: els' rest rule: parseGroup_loop.induct)
  case (1 v els)
  then show ?case by simp
next
  case (2 v els s ts)
  from "2.prems" obtain e1 t1 where
    a: "parseElement v els s ts = Inr (e1, t1)" and b: "parseGroup_loop v e1 t1 = Inr (els', rest)"
    by (auto split: sum.splits)
  from "2.IH" [OF a refl b] obtain pre1 where
    p1: "t1 = pre1 @ rest" "noAdjacentNumbers pre1" "\<not> startsWithNumber pre1"
      "\<not> startsWithNumber rest"
    by blast
  from parseElement_consumes [OF a] show ?case
  proof
    assume "\<exists>d. ts = Number d # t1"
    then obtain d where "ts = Number d # t1" ..
    with p1 have "Element s # ts = (Element s # Number d # pre1) @ rest
        \<and> noAdjacentNumbers (Element s # Number d # pre1)
        \<and> \<not> startsWithNumber (Element s # Number d # pre1) \<and> \<not> startsWithNumber rest"
      by simp
    then show ?thesis by blast
  next
    assume "t1 = ts \<and> \<not> startsWithNumber ts"
    with p1 have "Element s # ts = (Element s # pre1) @ rest
        \<and> noAdjacentNumbers (Element s # pre1)
        \<and> \<not> startsWithNumber (Element s # pre1) \<and> \<not> startsWithNumber rest"
      by simp
    then show ?thesis by blast
  qed
next
  case (3 v els ts)
  from "3.prems" obtain g t1 e2 t2 where
    a: "parseGroup_loop v [] ts = Inr (g, t1)" and b: "closeParentheses els g t1 = Inr (e2, t2)"
    and c: "parseGroup_loop v e2 t2 = Inr (els', rest)"
    by (auto split: sum.splits)
  from "3.IH"(1) [OF a] obtain pre1 where
    p1: "ts = pre1 @ t1" "noAdjacentNumbers pre1" "\<not> startsWithNumber pre1"
    by blast
  from "3.IH"(2) [OF a refl b refl c] obtain pre2 where
    p2: "t2 = pre2 @ rest" "noAdjacentNumbers pre2" "\<not> startsWithNumber pre2"
      "\<not> startsWithNumber rest"
    by blast
  from closeParentheses_consumes [OF b] show ?case
  proof
    assume "\<exists>d. t1 = CloseParen # Number d # t2"
    then obtain d where t1: "t1 = CloseParen # Number d # t2" ..
    have "noAdjacentNumbers (pre1 @ (CloseParen # Number d # pre2))"
      using p1 p2 by (intro noAdjacentNumbers_append) simp_all
    with p1 p2 t1 have "OpenParen # ts = (OpenParen # pre1 @ CloseParen # Number d # pre2) @ rest
        \<and> noAdjacentNumbers (OpenParen # pre1 @ CloseParen # Number d # pre2)
        \<and> \<not> startsWithNumber (OpenParen # pre1 @ CloseParen # Number d # pre2)
        \<and> \<not> startsWithNumber rest"
      by simp
    then show ?thesis by blast
  next
    assume t1: "t1 = CloseParen # t2 \<and> \<not> startsWithNumber t2"
    have "noAdjacentNumbers (pre1 @ (CloseParen # pre2))"
      using p1 p2 by (intro noAdjacentNumbers_append) simp_all
    with p1 p2 t1 have "OpenParen # ts = (OpenParen # pre1 @ CloseParen # pre2) @ rest
        \<and> noAdjacentNumbers (OpenParen # pre1 @ CloseParen # pre2)
        \<and> \<not> startsWithNumber (OpenParen # pre1 @ CloseParen # pre2)
        \<and> \<not> startsWithNumber rest"
      by simp
    then show ?thesis by blast
  qed
next
  case (4 v els ts)
  then have "CloseParen # ts = [] @ rest \<and> noAdjacentNumbers [] \<and> \<not> startsWithNumber []
      \<and> \<not> startsWithNumber rest"
    by auto
  then show ?case by blast
next
  case (5 v els digits ts)
  then show ?case by simp
qed

lemma parse_valid_noAdjacentNumbers:
  assumes "ParseResult.isValid (parse v tokens)"
  shows "noAdjacentNumbers tokens"
proof -
  from assms obtain els where "parseGroup_loop v [] tokens = Inr (els, [])"
    by (auto simp: parse_def parseGroup_def split: sum.splits prod.splits if_splits)
  from parseGroup_loop_consumed [OF this] show ?thesis by simp
qed

lemma scan_chars:
  "scan s = Some ts \<Longrightarrow>
   list_all (\<lambda>c. isUpper c \<or> isLower c \<or> isDigit c \<or> c = 40 \<or> c = 41) (squeeze s)"
proof (induction s arbitrary: ts rule: scan.induct)
  case 1
  then show ?case by simp
next
  case (2 c cs)
  consider (upper) "isUpper c" | (digit) "\<not> isUpper c" "isDigit c"
    | (open_paren) "\<not> isUpper c" "\<not> isDigit c" "c = 40"
    | (close_paren) "\<not> isUpper c" "\<not> isDigit c" "c \<noteq> 40" "c = 41"
    | (space) "\<not> isUpper c" "\<not> isDigit c" "c \<noteq> 40" "c \<noteq> 41" "isSpace c"
    | (other) "\<not> isUpper c" "\<not> isDigit c" "c \<noteq> 40" "c \<noteq> 41" "\<not> isSpace c"
    by blast
  then show ?case
  proof cases
    case upper
    then have ns: "\<not> isSpace c" by (rule isUpper_not_isSpace)
    show ?thesis
    proof (cases cs)
      case Nil
      with upper ns show ?thesis by simp
    next
      case (Cons d ds)
      show ?thesis
      proof (cases "isLower d")
        case True
        then have nsd: "\<not> isSpace d" by (rule isLower_not_isSpace)
        from upper Cons True "2.prems" obtain ts' where "scan ds = Some ts'" by auto
        from "2.IH"(2) [OF upper Cons True this] upper ns nsd True Cons show ?thesis by simp
      next
        case False
        from upper Cons False "2.prems" obtain ts' where "scan cs = Some ts'" by auto
        from "2.IH"(3) [OF upper Cons False this] upper ns show ?thesis by simp
      qed
    qed
  next
    case digit
    then have ns: "\<not> isSpace c" using isDigit_not_isSpace by simp
    from digit "2.prems" obtain ts' where "scan (dropWhile isDigit cs) = Some ts'" by auto
    from "2.IH"(4) [OF digit this] have
      "list_all (\<lambda>c. isUpper c \<or> isLower c \<or> isDigit c \<or> c = 40 \<or> c = 41)
         (squeeze (dropWhile isDigit cs))" .
    moreover have "list_all (\<lambda>c. isUpper c \<or> isLower c \<or> isDigit c \<or> c = 40 \<or> c = 41)
         (takeWhile isDigit cs)"
      by (auto simp: list_all_iff dest: set_takeWhileD)
    ultimately have "list_all (\<lambda>c. isUpper c \<or> isLower c \<or> isDigit c \<or> c = 40 \<or> c = 41)
         (squeeze cs)"
      by (subst squeeze_digits) simp
    with digit ns show ?thesis by simp
  next
    case open_paren
    with "2.prems" "2.IH"(5) paren_not_isSpace show ?thesis by auto
  next
    case close_paren
    with "2.prems" "2.IH"(6) paren_not_isSpace show ?thesis by auto
  next
    case space
    with "2.prems" "2.IH"(7) show ?thesis by auto
  next
    case other
    with "2.prems" show ?thesis by simp
  qed
qed

lemma dropWhile_none: "\<forall>x\<in>set xs. \<not> P x \<Longrightarrow> dropWhile P xs = xs"
  by (cases xs) simp_all

lemma trim_squeeze: "trim (squeeze s) = squeeze s"
proof -
  have "\<forall>x\<in>set (squeeze s). \<not> isSpace x" by (simp add: squeeze_def)
  then show ?thesis by (simp add: trim_def dropWhile_none)
qed

lemma parseChemicalFormula_normalizeFormula:
  assumes "ParsedFormula.isValid (parseChemicalFormula v f)"
  shows "parseChemicalFormula v (normalizeFormula f)
           = (parseChemicalFormula v f)\<lparr>ParsedFormula.formula := squeeze (trim f)\<rparr>"
proof -
  let ?clean = "trim f"
  from assms have ne: "f \<noteq> []" "?clean \<noteq> []"
    and len: "length ?clean \<le> MAX_FORMULA_LENGTH"
    and tok: "tokenize ?clean \<noteq> []"
    and pv: "ParseResult.isValid (parse v (tokenize ?clean))"
    by (auto simp: parseChemicalFormula_def Let_def split: if_splits)
  from tok obtain ts where sc: "scan ?clean = Some ts" and ts: "tokenize ?clean = ts" "ts \<noteq> []"
    by (auto simp: tokenize_def split: option.splits)
  from pv ts have "noAdjacentNumbers ts"
    using parse_valid_noAdjacentNumbers by simp
  with sc have sq: "scan (squeeze ?clean) = Some ts" by (rule scan_squeeze)
  with ts have sne: "squeeze ?clean \<noteq> []" by auto
  from sq sc have tok': "tokenize (squeeze ?clean) = tokenize ?clean"
    by (simp add: tokenize_def)
  from scan_chars [OF sc] sne ne have norm: "normalizeFormula f = squeeze ?clean"
    by (simp add: normalizeFormula_def squeeze_def)
  have "length (squeeze ?clean) \<le> length ?clean"
    by (simp add: squeeze_def)
  with len have len': "length (squeeze ?clean) \<le> MAX_FORMULA_LENGTH" by simp
  from ne len len' sne tok tok' show ?thesis
    unfolding norm
    by (simp add: parseChemicalFormula_def [of v "squeeze ?clean"] parseChemicalFormula_def [of v f]
        trim_squeeze Let_def)
qed

lemma inPeriodicTable_Ca: "inPeriodicTable [67, 97]"
  by (simp add: inPeriodicTable_def periodicTable_def str_def)

lemma parseChemicalFormula_spaced:
  "parseChemicalFormula inPeriodicTable (str '' Ca (OH)2 '') =
     \<lparr>ParsedFormula.elements =
        [\<lparr>symbol = str ''Ca'', count = 1\<rparr>, \<lparr>symbol = str ''O'', count = 2\<rparr>,
         \<lparr>symbol = str ''H'', count = 2\<rparr>],
      formula = str ''Ca (OH)2'', isValid = True, error = None\<rparr>"
  by (simp add: string_defs parser_defs inPeriodicTable_Ca inPeriodicTable_O inPeriodicTable_H)

text \<open>
  Claim C5. Whenever \<open>parseChemicalFormula\<close> accepts a string, it accepts the normalised
  string too and gives the same elements with the same counts, in the same order.
\<close>

theorem parser_idempotence:
  assumes "ParsedFormula.isValid (parseChemicalFormula isValidElement f)"
  shows "ParsedFormula.isValid (parseChemicalFormula isValidElement (normalizeFormula f))
       \<and> ParsedFormula.elements (parseChemicalFormula isValidElement (normalizeFormula f))
           = ParsedFormula.elements (parseChemicalFormula isValidElement f)"
  using assms by (simp add: parseChemicalFormula_normalizeFormula)

theorem parser_idempotence_witness:
  "ParsedFormula.isValid (parseChemicalFormula inPeriodicTable (str '' Ca (OH)2 ''))
   \<and> ParsedFormula.isValid
       (parseChemicalFormula inPeriodicTable (normalizeFormula (str '' Ca (OH)2 '')))
   \<and> ParsedFormula.elements
       (parseChemicalFormula inPeriodicTable (normalizeFormula (str '' Ca (OH)2 '')))
     = [\<lparr>symbol = str ''Ca'', count = 1\<rparr>, \<lparr>symbol = str ''O'', count = 2\<rparr>,
        \<lparr>symbol = str ''H'', count = 2\<rparr>]"
proof -
  have h: "ParsedFormula.isValid (parseChemicalFormula inPeriodicTable (str '' Ca (OH)2 ''))"
    by (simp add: parseChemicalFormula_spaced)
  from parser_idempotence [OF h] h show ?thesis
    by (simp add: parseChemicalFormula_spaced)
qed

end
